theory Spec2Isabelle
  imports Main "HOL-Library.Word" "HOL-Library.Sublist" "HOL-Library.AList"
begin

section \<open>Python values\<close>

text \<open>
  Event payloads, request content blocks and SSE data are JSON values (Python's
  \<^verbatim>\<open>Dict[str, Any]\<close>). Numbers are integers; a dict is an association list
  with unique keys. The library functions \<^verbatim>\<open>json.dumps\<close>, \<^verbatim>\<open>json.loads\<close>,
  \<^verbatim>\<open>bytes.decode('utf-8')\<close>, \<^verbatim>\<open>hashlib.sha256\<close>, the clock and the HTTP call to
  the token endpoint are not code of this repository: the functions that call them
  take them as parameters. \<^verbatim>\<open>json.loads\<close> returns the value or the exception it
  raises, \<^verbatim>\<open>JSONDecodeError\<close> for a text that is not JSON.
\<close>

datatype json =
    JNull
  | JBool bool
  | JInt int
  | JStr string
  | JArr "json list"
  | JObj "(string \<times> json) list"

type_synonym dict = "(string \<times> json) list"

datatype error =
    TypeError | AttributeError | KeyError | IndexError | JSONDecodeError | RecursionError
  | HTTPException nat

text \<open>Python truthiness (\<^verbatim>\<open>if x:\<close>, \<^verbatim>\<open>x or y\<close>, \<^verbatim>\<open>not x\<close>).\<close>

fun truthy :: "json \<Rightarrow> bool" where
  "truthy JNull = False"
| "truthy (JBool b) = b"
| "truthy (JInt i) = (i \<noteq> 0)"
| "truthy (JStr s) = (s \<noteq> [])"
| "truthy (JArr xs) = (xs \<noteq> [])"
| "truthy (JObj kvs) = (kvs \<noteq> [])"

text \<open>\<^verbatim>\<open>d.get(k)\<close> (None when the key is absent) and \<^verbatim>\<open>d.get(k, default)\<close>.\<close>

definition get :: "dict \<Rightarrow> string \<Rightarrow> json" where
  "get d k = (case map_of d k of None \<Rightarrow> JNull | Some v \<Rightarrow> v)"

definition get_default :: "dict \<Rightarrow> string \<Rightarrow> json \<Rightarrow> json" where
  "get_default d k dflt = (case map_of d k of None \<Rightarrow> dflt | Some v \<Rightarrow> v)"

text \<open>Lists and dicts are unhashable: adding one to a set raises TypeError.\<close>

fun hashable :: "json \<Rightarrow> bool" where
  "hashable (JArr xs) = False"
| "hashable (JObj kvs) = False"
| "hashable j = True"

text \<open>In a Python set \<^verbatim>\<open>True\<close> and \<^verbatim>\<open>1\<close> (\<^verbatim>\<open>False\<close> and \<^verbatim>\<open>0\<close>) are one element.\<close>

fun set_key :: "json \<Rightarrow> json" where
  "set_key (JBool b) = JInt (if b then 1 else 0)"
| "set_key j = j"

text \<open>
  \<^verbatim>\<open>x == y\<close> on JSON values: \<^verbatim>\<open>True\<close> equals 1 and \<^verbatim>\<open>False\<close> equals 0, lists are
  compared item by item, and dicts key by key whatever the order of their keys.
\<close>

fun py_eq :: "json \<Rightarrow> json \<Rightarrow> bool"
  and py_eq_list :: "json list \<Rightarrow> json list \<Rightarrow> bool"
  and py_eq_items :: "(string \<times> json) list \<Rightarrow> (string \<times> json) list \<Rightarrow> bool" where
  "py_eq JNull y = (y = JNull)"
| "py_eq (JBool a) y =
     (case y of JBool b \<Rightarrow> a = b | JInt j \<Rightarrow> (if a then 1 else 0) = j | _ \<Rightarrow> False)"
| "py_eq (JInt i) y =
     (case y of JBool b \<Rightarrow> i = (if b then 1 else 0) | JInt j \<Rightarrow> i = j | _ \<Rightarrow> False)"
| "py_eq (JStr s) y = (y = JStr s)"
| "py_eq (JArr xs) y = (case y of JArr ys \<Rightarrow> py_eq_list xs ys | _ \<Rightarrow> False)"
| "py_eq (JObj kvs) y =
     (case y of JObj kvs' \<Rightarrow> length kvs = length kvs' \<and> py_eq_items kvs kvs' | _ \<Rightarrow> False)"
| "py_eq_list [] ys = (ys = [])"
| "py_eq_list (x # xs) ys = (case ys of [] \<Rightarrow> False | y # ys' \<Rightarrow> py_eq x y \<and> py_eq_list xs ys')"
| "py_eq_items [] kvs' = True"
| "py_eq_items (kv # kvs) kvs' =
     (case map_of kvs' (fst kv) of
        None \<Rightarrow> False
      | Some w \<Rightarrow> py_eq (snd kv) w \<and> py_eq_items kvs kvs')"

text \<open>\<^verbatim>\<open>"".join(parts)\<close>: TypeError (here None) when an item is not a string.\<close>

fun join_strs :: "json list \<Rightarrow> string option" where
  "join_strs [] = Some []"
| "join_strs (JStr s # js) = map_option (\<lambda>r. s @ r) (join_strs js)"
| "join_strs (j # js) = None"

section \<open>SSE events (amazonq/parser.py)\<close>

text \<open>
  An SSE event is the pair \<^verbatim>\<open>(event_type, data)\<close> that the builders hand to
  \<^verbatim>\<open>_sse_format\<close>; one yielded string holds one event, or two for
  \<^verbatim>\<open>build_message_stop\<close>.
\<close>

type_synonym sse_event = "string \<times> json"

definition sse_format :: "(json \<Rightarrow> string) \<Rightarrow> sse_event \<Rightarrow> string" where
  "sse_format dumps e =
     ''event: '' @ fst e @ [CHR 0x0A] @ ''data: '' @ dumps (snd e) @ [CHR 0x0A, CHR 0x0A]"

definition build_message_start :: "json \<Rightarrow> string \<Rightarrow> int \<Rightarrow> sse_event list" where
  "build_message_start conversation_id model input_tokens =
     [(''message_start'', JObj [
        (''type'', JStr ''message_start''),
        (''message'', JObj [
           (''id'', conversation_id),
           (''type'', JStr ''message''),
           (''role'', JStr ''assistant''),
           (''content'', JArr []),
           (''model'', JStr model),
           (''stop_reason'', JNull),
           (''stop_sequence'', JNull),
           (''usage'', JObj [(''input_tokens'', JInt input_tokens), (''output_tokens'', JInt 0)])])])]"

definition build_content_block_start :: "int \<Rightarrow> string \<Rightarrow> sse_event list" where
  "build_content_block_start index block_type =
     [(''content_block_start'', JObj [
        (''type'', JStr ''content_block_start''),
        (''index'', JInt index),
        (''content_block'',
           (if block_type = ''text'' then JObj [(''type'', JStr block_type), (''text'', JStr [])]
            else JObj [(''type'', JStr block_type)]))])]"

definition build_content_block_delta :: "int \<Rightarrow> json \<Rightarrow> sse_event list" where
  "build_content_block_delta index text =
     [(''content_block_delta'', JObj [
        (''type'', JStr ''content_block_delta''),
        (''index'', JInt index),
        (''delta'', JObj [(''type'', JStr ''text_delta''), (''text'', text)])])]"

definition build_content_block_stop :: "int \<Rightarrow> sse_event list" where
  "build_content_block_stop index =
     [(''content_block_stop'', JObj [
        (''type'', JStr ''content_block_stop''),
        (''index'', JInt index)])]"

definition build_ping :: "sse_event list" where
  "build_ping = [(''ping'', JObj [(''type'', JStr ''ping'')])]"

definition build_message_stop :: "int \<Rightarrow> int \<Rightarrow> string \<Rightarrow> sse_event list" where
  "build_message_stop input_tokens output_tokens stop_reason =
     [(''message_delta'', JObj [
        (''type'', JStr ''message_delta''),
        (''delta'', JObj [
           (''stop_reason'', JStr (if stop_reason \<noteq> [] then stop_reason else ''end_turn'')),
           (''stop_sequence'', JNull)]),
        (''usage'', JObj [(''output_tokens'', JInt output_tokens)])]),
      (''message_stop'', JObj [(''type'', JStr ''message_stop'')])]"

definition build_tool_use_start :: "int \<Rightarrow> json \<Rightarrow> json \<Rightarrow> sse_event list" where
  "build_tool_use_start index tool_use_id tool_name =
     [(''content_block_start'', JObj [
        (''type'', JStr ''content_block_start''),
        (''index'', JInt index),
        (''content_block'', JObj [
           (''type'', JStr ''tool_use''),
           (''id'', tool_use_id),
           (''name'', tool_name),
           (''input'', JObj [])])])]"

definition build_tool_use_input_delta :: "int \<Rightarrow> string \<Rightarrow> sse_event list" where
  "build_tool_use_input_delta index input_json_delta =
     [(''content_block_delta'', JObj [
        (''type'', JStr ''content_block_delta''),
        (''index'', JInt index),
        (''delta'', JObj [
           (''type'', JStr ''input_json_delta''),
           (''partial_json'', JStr input_json_delta)])])]"

section \<open>The stream handler (amazonq/streaming.py)\<close>

record handler =
  model :: string
  input_tokens :: int
  response_buffer :: "json list"
  content_block_index :: int
  content_block_started :: bool
  content_block_start_sent :: bool
  content_block_stop_sent :: bool
  message_start_sent :: bool
  conversation_id :: json
  current_tool_use :: "dict option"
  tool_input_buffer :: "string list"
  tool_use_id :: json
  tool_name :: json
  processed_tool_use_ids :: "json set"
  all_tool_inputs :: "string list"

text \<open>\<^verbatim>\<open>ClaudeStreamHandler.__init__\<close>; Python's None is \<^const>\<open>JNull\<close> or \<^const>\<open>None\<close>.\<close>

definition init_handler :: "string \<Rightarrow> int \<Rightarrow> handler" where
  "init_handler m n = \<lparr>
     model = m,
     input_tokens = n,
     response_buffer = [],
     content_block_index = -1,
     content_block_started = False,
     content_block_start_sent = False,
     content_block_stop_sent = False,
     message_start_sent = False,
     conversation_id = JNull,
     current_tool_use = None,
     tool_input_buffer = [],
     tool_use_id = JNull,
     tool_name = JNull,
     processed_tool_use_ids = {},
     all_tool_inputs = [] \<rparr>"

text \<open>Truthiness of \<^verbatim>\<open>self.current_tool_use\<close>: not None and not the empty dict.\<close>

definition tool_active :: "handler \<Rightarrow> bool" where
  "tool_active h = (case current_tool_use h of None \<Rightarrow> False | Some d \<Rightarrow> d \<noteq> [])"

text \<open>
  A generator call returns the strings it yielded, each as its list of events, and
  either the error that ended it or the handler as it left it.
\<close>

type_synonym emitted = "sse_event list list"

text \<open>Branch 1, \<^verbatim>\<open>initial-response\<close>.\<close>

definition handle_initial_response :: "handler \<Rightarrow> dict \<Rightarrow> emitted \<times> (error + handler)" where
  "handle_initial_response h payload =
     (if \<not> message_start_sent h then
        let conv_id = get_default payload ''conversationId''
                        (if truthy (conversation_id h) then conversation_id h else JStr ''unknown'')
        in ([build_message_start conv_id (model h) (input_tokens h), build_ping],
            Inr (h\<lparr>conversation_id := conv_id, message_start_sent := True\<rparr>))
      else ([], Inr h))"

text \<open>Branch 2, \<^verbatim>\<open>assistantResponseEvent\<close>: three statements in sequence.\<close>

definition handle_assistant_response :: "handler \<Rightarrow> dict \<Rightarrow> emitted \<times> (error + handler)" where
  "handle_assistant_response h payload =
     (let content = get_default payload ''content'' (JStr []);
          (o1, h1) =
            (if tool_active h \<and> \<not> content_block_stop_sent h
             then ([build_content_block_stop (content_block_index h)],
                   h\<lparr>content_block_stop_sent := True, current_tool_use := None\<rparr>)
             else ([], h));
          (o2, h2) =
            (if \<not> content_block_start_sent h1
             then ([build_content_block_start (content_block_index h1 + 1) ''text''],
                   h1\<lparr>content_block_index := content_block_index h1 + 1,
                      content_block_start_sent := True,
                      content_block_started := True\<rparr>)
             else ([], h1));
          (o3, h3) =
            (if truthy content
             then ([build_content_block_delta (content_block_index h2) content],
                   h2\<lparr>response_buffer := response_buffer h2 @ [content]\<rparr>)
             else ([], h2))
      in (o1 @ o2 @ o3, Inr h3))"

text \<open>
  Branch 3, \<^verbatim>\<open>toolUseEvent\<close>, is three statements in sequence. The first starts a
  new tool use (lines 99-116); adding an unhashable id to the set of processed ids raises
  after the stop of the text block was yielded.
\<close>

definition tool_use_start :: "handler \<Rightarrow> json \<Rightarrow> json \<Rightarrow> emitted \<times> (error + handler)" where
  "tool_use_start h tool_use_id' tool_name' =
     (if truthy tool_use_id' \<and> truthy tool_name' \<and> \<not> tool_active h then
        let (oc, hc) =
              (if content_block_start_sent h \<and> \<not> content_block_stop_sent h
               then ([build_content_block_stop (content_block_index h)],
                     h\<lparr>content_block_stop_sent := True\<rparr>)
               else ([], h))
        in if \<not> hashable tool_use_id' then (oc, Inl TypeError)
           else
             (oc @ [build_tool_use_start (content_block_index hc + 1) tool_use_id' tool_name'],
              Inr (hc\<lparr>processed_tool_use_ids :=
                         insert (set_key tool_use_id') (processed_tool_use_ids hc),
                       content_block_index := content_block_index hc + 1,
                       content_block_started := True,
                       current_tool_use :=
                         Some [(''toolUseId'', tool_use_id'), (''name'', tool_name')],
                       tool_use_id := tool_use_id',
                       tool_name := tool_name',
                       tool_input_buffer := [],
                       content_block_stop_sent := False,
                       content_block_start_sent := True\<rparr>))
      else ([], Inr h))"

text \<open>The second accumulates the input (lines 119-127).\<close>

definition tool_use_input :: "(json \<Rightarrow> string) \<Rightarrow> handler \<Rightarrow> json \<Rightarrow> emitted \<times> handler" where
  "tool_use_input dumps h tool_input =
     (if tool_active h \<and> truthy tool_input then
        let fragment = (case tool_input of JStr s \<Rightarrow> s | _ \<Rightarrow> dumps tool_input)
        in ([build_tool_use_input_delta (content_block_index h) fragment],
            h\<lparr>tool_input_buffer := tool_input_buffer h @ [fragment]\<rparr>)
      else ([], h))"

text \<open>The third stops the tool use (lines 130-140).\<close>

definition tool_use_stop :: "handler \<Rightarrow> json \<Rightarrow> emitted \<times> handler" where
  "tool_use_stop h is_stop =
     (if truthy is_stop \<and> tool_active h then
        let full_input = concat (tool_input_buffer h)
        in ([build_content_block_stop (content_block_index h)],
            h\<lparr>all_tool_inputs := all_tool_inputs h @ [full_input],
              content_block_stop_sent := True,
              content_block_started := False,
              current_tool_use := None,
              tool_use_id := JNull,
              tool_name := JNull,
              tool_input_buffer := []\<rparr>)
      else ([], h))"

definition handle_tool_use :: "(json \<Rightarrow> string) \<Rightarrow> handler \<Rightarrow> dict \<Rightarrow> emitted \<times> (error + handler)" where
  "handle_tool_use dumps h payload =
     (let tool_use_id' = get payload ''toolUseId'';
          tool_name' = get payload ''name'';
          tool_input = get_default payload ''input'' (JObj []);
          is_stop = get_default payload ''stop'' (JBool False)
      in case tool_use_start h tool_use_id' tool_name' of
           (o1, Inl e) \<Rightarrow> (o1, Inl e)
         | (o1, Inr h1) \<Rightarrow>
             (case tool_use_input dumps h1 tool_input of
                (o2, h2) \<Rightarrow>
                  (case tool_use_stop h2 is_stop of
                     (o3, h3) \<Rightarrow> (o1 @ o2 @ o3, Inr h3))))"

text \<open>Branch 4, \<^verbatim>\<open>assistantResponseEnd\<close>.\<close>

definition handle_assistant_end :: "handler \<Rightarrow> emitted \<times> (error + handler)" where
  "handle_assistant_end h =
     (if content_block_started h \<and> \<not> content_block_stop_sent h
      then ([build_content_block_stop (content_block_index h)],
            Inr (h\<lparr>content_block_stop_sent := True\<rparr>))
      else ([], Inr h))"

definition handle_event ::
  "(json \<Rightarrow> string) \<Rightarrow> handler \<Rightarrow> string \<Rightarrow> dict \<Rightarrow> emitted \<times> (error + handler)" where
  "handle_event dumps h event_type payload =
     (if event_type = ''initial-response'' then handle_initial_response h payload
      else if event_type = ''assistantResponseEvent'' then handle_assistant_response h payload
      else if event_type = ''toolUseEvent'' then handle_tool_use dumps h payload
      else if event_type = ''assistantResponseEnd'' then handle_assistant_end h
      else ([], Inr h))"

text \<open>
  \<^verbatim>\<open>finish\<close>: joining the response buffer raises TypeError when an
  \<^verbatim>\<open>assistantResponseEvent\<close> carried a content that is not a string.
\<close>

definition finish :: "handler \<Rightarrow> emitted \<times> (error + handler)" where
  "finish h =
     (let (o1, h1) =
            (if content_block_started h \<and> \<not> content_block_stop_sent h
             then ([build_content_block_stop (content_block_index h)],
                   h\<lparr>content_block_stop_sent := True\<rparr>)
             else ([], h))
      in case join_strs (response_buffer h1) of
           None \<Rightarrow> (o1, Inl TypeError)
         | Some full_text \<Rightarrow>
             let full_tool_input = concat (all_tool_inputs h1);
                 output_tokens =
                   max 1 ((int (length full_text) + int (length full_tool_input)) div 4)
             in (o1 @ [build_message_stop (input_tokens h1) output_tokens ''end_turn''], Inr h1))"

text \<open>
  \<^verbatim>\<open>event_generator\<close> of api/server.py: every event through \<^verbatim>\<open>handle_event\<close> in
  arrival order, then \<^verbatim>\<open>finish\<close>; an error ends the stream after what was yielded.
\<close>

fun event_generator ::
  "(json \<Rightarrow> string) \<Rightarrow> handler \<Rightarrow> (string \<times> dict) list \<Rightarrow> emitted \<times> (error + handler)" where
  "event_generator dumps h [] = finish h"
| "event_generator dumps h ((event_type, payload) # evs) =
     (case handle_event dumps h event_type payload of
        (out, Inl e) \<Rightarrow> (out, Inl e)
      | (out, Inr h') \<Rightarrow>
          (case event_generator dumps h' evs of (out', r) \<Rightarrow> (out @ out', r)))"

text \<open>The SSE events of a stream, and the count of those of one type.\<close>

definition events_of :: "emitted \<Rightarrow> sse_event list" where
  "events_of out = concat out"

definition count_type :: "string \<Rightarrow> emitted \<Rightarrow> nat" where
  "count_type t out = length (filter (\<lambda>e. fst e = t) (events_of out))"

text \<open>
  The content blocks of an event list, read from left to right with the flag "a block is
  open": a content_block_start while a block is open is the result None, a
  content_block_stop closes (also when no block is open), and the result is the flag at
  the end.
\<close>

fun block_trace :: "bool \<Rightarrow> sse_event list \<Rightarrow> bool option" where
  "block_trace opn [] = Some opn"
| "block_trace opn (e # es) =
     (if fst e = ''content_block_start'' then (if opn then None else block_trace True es)
      else if fst e = ''content_block_stop'' then block_trace False es
      else block_trace opn es)"

text \<open>The handler has a block open: a start was sent and no stop since.\<close>

definition block_open :: "handler \<Rightarrow> bool" where
  "block_open h = (content_block_start_sent h \<and> \<not> content_block_stop_sent h)"

text \<open>How the flags of a handler hang together in every state it reaches.\<close>

definition flags_ok :: "handler \<Rightarrow> bool" where
  "flags_ok h =
     ((block_open h \<longrightarrow> content_block_started h)
      \<and> (tool_active h \<longrightarrow> content_block_start_sent h)
      \<and> (content_block_started h \<longrightarrow> content_block_start_sent h)
      \<and> (\<not> content_block_start_sent h \<longrightarrow> \<not> content_block_stop_sent h))"

text \<open>
  A generator call from \<open>h\<close> keeps the flags together, and its events continue the
  blocks from the flag of \<open>h\<close> to the flag of the handler it leaves.
\<close>

definition step_ok :: "handler \<Rightarrow> emitted \<times> (error + handler) \<Rightarrow> bool" where
  "step_ok h res =
     (case res of
        (out, Inr h') \<Rightarrow> flags_ok h' \<and> block_trace (block_open h) (events_of out) = Some (block_open h')
      | (out, Inl e) \<Rightarrow> block_trace (block_open h) (events_of out) \<noteq> None)"

section \<open>Strings\<close>

text \<open>\<^verbatim>\<open>s.split(sep)\<close> for a one-character separator: at least one field.\<close>

fun str_split :: "char \<Rightarrow> string \<Rightarrow> string list" where
  "str_split sep [] = [[]]"
| "str_split sep (c # cs) =
     (if c = sep then [] # str_split sep cs
      else (case str_split sep cs of [] \<Rightarrow> [[c]] | f # fs \<Rightarrow> (c # f) # fs))"

text \<open>\<^verbatim>\<open>sep.join(parts)\<close> for parts that are strings.\<close>

fun str_join :: "string \<Rightarrow> string list \<Rightarrow> string" where
  "str_join sep [] = []"
| "str_join sep [x] = x"
| "str_join sep (x # y # ys) = x @ sep @ str_join sep (y # ys)"

text \<open>
  \<^verbatim>\<open>s.lower()\<close>: the ASCII capitals become small letters. A character beyond ASCII
  is lowered to no ASCII character other than \<^verbatim>\<open>i\<close> and \<^verbatim>\<open>k\<close>, so for a
  comparison with a text that has neither it can stay as it is.
\<close>

definition lower_char :: "char \<Rightarrow> char" where
  "lower_char c =
     (let n = (of_char c :: nat)
      in if 65 \<le> n \<and> n \<le> 90 then char_of (n + 32) else c)"

definition str_lower :: "string \<Rightarrow> string" where
  "str_lower s = map lower_char s"

section \<open>Model mapping (core/converter.py)\<close>

definition map_model_name :: "string \<Rightarrow> string" where
  "map_model_name claude_model =
     (let model_lower = str_lower claude_model
      in if prefix ''claude-sonnet-4.5'' model_lower \<or> prefix ''claude-sonnet-4-5'' model_lower
         then ''claude-sonnet-4.5''
         else ''claude-sonnet-4'')"

text \<open>
  What the specification calls a case-insensitive prefix match, written out from the
  character codes and independently of \<^const>\<open>str_lower\<close>: two characters are the
  same letter when they are equal or when one is an ASCII capital, code 65 to 90, and
  the other has that code plus 32; a model string matches a prefix when it is at least
  as long and agrees with it, position by position, up to that relation.
\<close>

definition is_capital :: "char \<Rightarrow> bool" where
  "is_capital c = (65 \<le> (of_char c :: nat) \<and> (of_char c :: nat) \<le> 90)"

definition same_letter :: "char \<Rightarrow> char \<Rightarrow> bool" where
  "same_letter c d =
     (c = d
      \<or> (is_capital c \<and> (of_char d :: nat) = of_char c + 32)
      \<or> (is_capital d \<and> (of_char c :: nat) = of_char d + 32))"

definition matches_ci :: "string \<Rightarrow> string \<Rightarrow> bool" where
  "matches_ci p s = (length p \<le> length s \<and> list_all2 same_letter (take (length p) s) p)"

section \<open>Authentication (api/middleware.py)\<close>

definition parse_bearer_token :: "string \<Rightarrow> string \<times> string \<times> string" where
  "parse_bearer_token bearer_token =
     (let temp_array = str_split CHR '':'' bearer_token;
          client_id = (if length temp_array > 0 then temp_array ! 0 else []);
          client_secret = (if length temp_array > 1 then temp_array ! 1 else []);
          refresh_token =
            (if length temp_array > 2 then str_join '':'' (drop 2 temp_array) else [])
      in (client_id, client_secret, refresh_token))"

text \<open>An entry of \<^verbatim>\<open>TOKEN_MAP\<close>; the time stamp is whatever the clock returns.\<close>

record 't token_entry =
  accessToken :: string
  refreshToken :: string
  clientId :: string
  clientSecret :: string
  lastRefresh :: 't

text \<open>The dict that \<^verbatim>\<open>auth_middleware\<close> returns.\<close>

record account =
  acc_accessToken :: string
  acc_clientId :: string
  acc_clientSecret :: string
  acc_refreshToken :: string

text \<open>
  The network calls of a request, in order: the POST to the OIDC token endpoint made by
  \<^verbatim>\<open>_handle_token_refresh\<close> and the POST to the upstream chat endpoint made by
  \<^verbatim>\<open>send_chat_request\<close>.
\<close>

datatype call = TokenRefresh string string string | UpstreamChat string

text \<open>
  Lines 126-130 of \<^verbatim>\<open>auth_middleware\<close>: the secret is the \<^verbatim>\<open>x-api-key\<close> header when
  it is not empty, else what follows \<^verbatim>\<open>Bearer \<close> in the Authorization header.
\<close>

definition request_token :: "string option \<Rightarrow> string option \<Rightarrow> string option" where
  "request_token authorization x_api_key =
     (let token = (case x_api_key of Some k \<Rightarrow> (if k \<noteq> [] then Some k else None) | None \<Rightarrow> None)
      in case token of
           Some t \<Rightarrow> Some t
         | None \<Rightarrow>
             (case authorization of
                Some a \<Rightarrow> (if a \<noteq> [] \<and> prefix ''Bearer '' a then Some (drop 7 a) else None)
              | None \<Rightarrow> None))"

text \<open>
  \<^verbatim>\<open>auth_middleware\<close> returns the account or the HTTPException, the token map as it
  leaves it, and the network calls it made. \<^verbatim>\<open>handle_token_refresh\<close> stands for the
  answer of the token endpoint: the new access token, or None on any failure.
\<close>

definition auth_middleware ::
  "(string \<Rightarrow> string) \<Rightarrow> (string \<Rightarrow> string \<Rightarrow> string \<Rightarrow> string option) \<Rightarrow> 't \<Rightarrow>
   (string \<rightharpoonup> 't token_entry) \<Rightarrow> string option \<Rightarrow> string option \<Rightarrow>
   (error + account) \<times> (string \<rightharpoonup> 't token_entry) \<times> call list" where
  "auth_middleware sha256_hex handle_token_refresh now TOKEN_MAP authorization x_api_key =
     (case request_token authorization x_api_key of
        None \<Rightarrow> (Inl (HTTPException 401), TOKEN_MAP, [])
      | Some token \<Rightarrow>
          if token = [] then (Inl (HTTPException 401), TOKEN_MAP, [])
          else
            (let token_hash = sha256_hex token in
             (case TOKEN_MAP token_hash of
                Some entry \<Rightarrow>
                  (Inr \<lparr>acc_accessToken = accessToken entry, acc_clientId = clientId entry,
                        acc_clientSecret = clientSecret entry,
                        acc_refreshToken = refreshToken entry\<rparr>,
                   TOKEN_MAP, [])
              | None \<Rightarrow>
                  (case parse_bearer_token token of (client_id, client_secret, refresh_token) \<Rightarrow>
                     if client_id = [] \<or> client_secret = [] \<or> refresh_token = []
                     then (Inl (HTTPException 401), TOKEN_MAP, [])
                     else
                       (case handle_token_refresh client_id client_secret refresh_token of
                          None \<Rightarrow> (Inl (HTTPException 401), TOKEN_MAP,
                                   [TokenRefresh client_id client_secret refresh_token])
                        | Some access_token \<Rightarrow>
                            if access_token = []
                            then (Inl (HTTPException 401), TOKEN_MAP,
                                  [TokenRefresh client_id client_secret refresh_token])
                            else
                              (Inr \<lparr>acc_accessToken = access_token, acc_clientId = client_id,
                                    acc_clientSecret = client_secret,
                                    acc_refreshToken = refresh_token\<rparr>,
                               TOKEN_MAP(token_hash \<mapsto>
                                 \<lparr>accessToken = access_token, refreshToken = refresh_token,
                                  clientId = client_id, clientSecret = client_secret,
                                  lastRefresh = now\<rparr>),
                               [TokenRefresh client_id client_secret refresh_token]))))))"


section \<open>The event stream parser (amazonq/parser.py)\<close>

type_synonym byte = "8 word"

text \<open>\<^verbatim>\<open>struct.unpack('>I', b)\<close> and \<^verbatim>\<open>struct.unpack('>H', b)\<close>: big-endian unsigned.\<close>

definition be_uint :: "byte list \<Rightarrow> nat" where
  "be_uint bs = foldl (\<lambda>n b. n * 256 + unat b) 0 bs"

text \<open>\<^verbatim>\<open>xs[a:b]\<close>: a negative bound counts from the end, both are clamped.\<close>

definition py_slice :: "'a list \<Rightarrow> int \<Rightarrow> int \<Rightarrow> 'a list" where
  "py_slice xs a b =
     (let n = int (length xs);
          lo = (if a < 0 then max 0 (n + a) else min a n);
          hi = (if b < 0 then max 0 (n + b) else min b n)
      in take (nat (hi - lo)) (drop (nat lo) xs))"

text \<open>A header value: a string for value type 7, the raw bytes otherwise.\<close>

datatype hvalue = HStr string | HBytes "byte list"

text \<open>
  The loop of \<^verbatim>\<open>parse_headers\<close>, on the offset and the dict built so far. Every
  \<^verbatim>\<open>break\<close> returns the headers read so far; \<^verbatim>\<open>decode('utf-8')\<close> may raise
  UnicodeDecodeError, which is the result None.
\<close>

function parse_headers_loop ::
  "(byte list \<Rightarrow> string option) \<Rightarrow> byte list \<Rightarrow> nat \<Rightarrow> (string \<times> hvalue) list \<Rightarrow>
   (string \<times> hvalue) list option" where
  "parse_headers_loop decode headers_data offset headers =
     (if offset < length headers_data then
        (let name_length = unat (headers_data ! offset);
             offset1 = offset + 1
         in if offset1 + name_length > length headers_data then Some headers
            else
              (case decode (take name_length (drop offset1 headers_data)) of
                 None \<Rightarrow> None
               | Some name \<Rightarrow>
                   (let offset2 = offset1 + name_length
                    in if offset2 \<ge> length headers_data then Some headers
                       else
                         (let value_type = unat (headers_data ! offset2);
                              offset3 = offset2 + 1
                          in if offset3 + 2 > length headers_data then Some headers
                             else
                               (let value_length = be_uint (take 2 (drop offset3 headers_data));
                                    offset4 = offset3 + 2
                                in if offset4 + value_length > length headers_data then Some headers
                                   else
                                     (case (if value_type = 7
                                            then map_option HStr
                                                   (decode (take value_length (drop offset4 headers_data)))
                                            else Some (HBytes (take value_length (drop offset4 headers_data)))) of
                                        None \<Rightarrow> None
                                      | Some v \<Rightarrow>
                                          parse_headers_loop decode headers_data
                                            (offset4 + value_length)
                                            (AList.update name v headers)))))))
      else Some headers)"
  by pat_completeness auto
termination
  by (relation "measure (\<lambda>(decode, headers_data, offset, headers). length headers_data - offset)") auto

definition parse_headers ::
  "(byte list \<Rightarrow> string option) \<Rightarrow> byte list \<Rightarrow> (string \<times> hvalue) list option" where
  "parse_headers decode headers_data = parse_headers_loop decode headers_data 0 []"

text \<open>
  The payload of a message: the parsed JSON, or the raw bytes. Python's None, the
  payload of a message without payload bytes and the value of the text \<^verbatim>\<open>null\<close>, is
  \<^const>\<open>JNull\<close>.
\<close>

datatype payload = PJson json | PRaw "byte list"

record message =
  msg_headers :: "(string \<times> hvalue) list"
  msg_payload :: payload
  msg_total_length :: nat

text \<open>
  \<^verbatim>\<open>parse_message\<close> returns None for a short or incomplete message and for any
  exception of the header parser. A payload that does not decode (UnicodeDecodeError)
  or is not JSON (JSONDecodeError) is kept as raw bytes; any other exception of
  \<^verbatim>\<open>json.loads\<close> reaches the outer \<^verbatim>\<open>except\<close>, and the result is None.
\<close>

definition parse_message ::
  "(byte list \<Rightarrow> string option) \<Rightarrow> (string \<Rightarrow> error + json) \<Rightarrow> byte list \<Rightarrow> message option" where
  "parse_message decode loads data =
     (if length data < 16 then None
      else
        (let total_length = be_uint (take 4 data);
             headers_length = be_uint (take 4 (drop 4 data))
         in if length data < total_length then None
            else
              (let headers_data = py_slice data 12 (12 + int headers_length)
               in case parse_headers decode headers_data of
                    None \<Rightarrow> None
                  | Some headers \<Rightarrow>
                      (let payload_start = 12 + int headers_length;
                           payload_end = int total_length - 4;
                           payload_data = py_slice data payload_start payload_end;
                           payload =
                             (if payload_data \<noteq> [] then
                                (case decode payload_data of
                                   None \<Rightarrow> Some (PRaw payload_data)
                                 | Some s \<Rightarrow>
                                     (case loads s of
                                        Inr j \<Rightarrow> Some (PJson j)
                                      | Inl e \<Rightarrow>
                                          if e = JSONDecodeError then Some (PRaw payload_data)
                                          else None))
                              else Some (PJson JNull))
                       in case payload of
                            None \<Rightarrow> None
                          | Some p \<Rightarrow>
                              Some \<lparr>msg_headers = headers, msg_payload = p,
                                    msg_total_length = total_length\<rparr>))))"

text \<open>
  The inner \<^verbatim>\<open>while\<close> loop of \<^verbatim>\<open>parse_stream\<close>: it takes messages off the front
  of the buffer while the buffer holds the length the first four bytes announce, and
  returns the messages yielded and the buffer left. With at least 12 bytes in the buffer
  \<^verbatim>\<open>struct.unpack\<close> cannot fail. A parsed message is a dict of three keys, so
  \<^verbatim>\<open>if message:\<close> holds whenever \<^verbatim>\<open>parse_message\<close> did not return None. A total
  length of 0 leaves the buffer as it is and the loop never ends: the result None.
\<close>

partial_function (option) drain ::
  "(byte list \<Rightarrow> message option) \<Rightarrow> byte list \<Rightarrow> (message list \<times> byte list) option" where
  "drain parse buffer =
     (if length buffer \<ge> 12 then
        (let total_length = be_uint (take 4 buffer)
         in if length buffer < total_length then Some ([], buffer)
            else
              (let message_data = take total_length buffer;
                   buffer' = drop total_length buffer;
                   message = parse message_data
               in Option.bind (drain parse buffer')
                    (\<lambda>(ms, b). Some ((case message of Some m \<Rightarrow> [m] | None \<Rightarrow> []) @ ms, b))))
      else Some ([], buffer))"

text \<open>The outer loop over the chunks of the byte stream, from a given buffer.\<close>

fun parse_stream_from ::
  "(byte list \<Rightarrow> message option) \<Rightarrow> byte list \<Rightarrow> byte list list \<Rightarrow> message list option" where
  "parse_stream_from parse buffer [] = Some []"
| "parse_stream_from parse buffer (chunk # chunks) =
     Option.bind (drain parse (buffer @ chunk))
       (\<lambda>(ms, buffer'). map_option (\<lambda>r. ms @ r) (parse_stream_from parse buffer' chunks))"

definition parse_stream ::
  "(byte list \<Rightarrow> string option) \<Rightarrow> (string \<Rightarrow> error + json) \<Rightarrow> byte list list \<Rightarrow> message list option" where
  "parse_stream decode loads byte_stream = parse_stream_from (parse_message decode loads) [] byte_stream"

text \<open>
  A complete frame: at least the 12 bytes of the prelude and the 4 bytes of the message
  CRC, and as long as its total-length field says.
\<close>

definition complete_frame :: "byte list \<Rightarrow> bool" where
  "complete_frame f = (16 \<le> length f \<and> be_uint (take 4 f) = length f)"

text \<open>The messages of a list of frames: each frame through \<^verbatim>\<open>parse_message\<close>.\<close>

definition decoded :: "(byte list \<Rightarrow> message option) \<Rightarrow> byte list list \<Rightarrow> message list" where
  "decoded parse frames = concat (map (\<lambda>f. case parse f of Some m \<Rightarrow> [m] | None \<Rightarrow> []) frames)"


text \<open>
  The bytes a drained buffer may hold in front of the frames still to come: a proper
  prefix of the next frame, or nothing when no frame is left.
\<close>

definition pending :: "byte list \<Rightarrow> byte list list \<Rightarrow> bool" where
  "pending t fs = (case fs of [] \<Rightarrow> t = [] | f # _ \<Rightarrow> strict_prefix t f)"

section \<open>Requests (core/types.py)\<close>

text \<open>
  The content of a message is a string or a list of dicts, and so is the system prompt
  (pydantic checks both). \<^verbatim>\<open>max_tokens\<close> and \<^verbatim>\<open>temperature\<close> are not read by the
  converter and are left out.
\<close>

datatype content = Text string | Blocks "dict list"

record claude_message =
  cm_role :: string
  cm_content :: content

record claude_tool =
  ct_name :: string
  ct_description :: "string option"
  ct_input_schema :: dict

record claude_request =
  cr_model :: string
  cr_messages :: "claude_message list"
  cr_tools :: "claude_tool list option"
  cr_stream :: bool
  cr_system :: "content option"

section \<open>The request converter (core/converter.py)\<close>

text \<open>Raising is \<^const>\<open>Inl\<close>; \<open>ebind\<close> runs the next statement when nothing was raised.\<close>

definition ebind :: "error + 'a \<Rightarrow> ('a \<Rightarrow> error + 'b) \<Rightarrow> error + 'b" where
  "ebind x f = (case x of Inl e \<Rightarrow> Inl e | Inr v \<Rightarrow> f v)"

definition newline :: string where
  "newline = [CHR 0x0A]"

text \<open>\<^verbatim>\<open>sep.join(parts)\<close> on JSON values: TypeError when a part is not a string.\<close>

fun json_strs :: "json list \<Rightarrow> string list option" where
  "json_strs [] = Some []"
| "json_strs (JStr s # js) = map_option (\<lambda>r. s # r) (json_strs js)"
| "json_strs (j # js) = None"

definition join_json :: "string \<Rightarrow> json list \<Rightarrow> error + string" where
  "join_json sep parts =
     (case json_strs parts of None \<Rightarrow> Inl TypeError | Some ss \<Rightarrow> Inr (str_join sep ss))"

text \<open>The \<^verbatim>\<open>text\<close> values of the blocks of type \<^verbatim>\<open>text\<close>, in order.\<close>

definition text_parts :: "dict list \<Rightarrow> json list" where
  "text_parts blocks =
     map (\<lambda>block. get_default block ''text'' (JStr []))
       (filter (\<lambda>block. get block ''type'' = JStr ''text'') blocks)"

definition extract_text_from_content :: "content \<Rightarrow> error + string" where
  "extract_text_from_content c =
     (case c of Text s \<Rightarrow> Inr s | Blocks blocks \<Rightarrow> join_json newline (text_parts blocks))"

text \<open>
  \<^verbatim>\<open>s.strip()\<close> is not empty when \<open>s\<close> has a character that is not white space
  (tab, line feed, vertical tab, form feed, carriage return, the four separators 28 to
  31, the space, the next line character 133 and the no-break space 160).
\<close>

definition is_space :: "char \<Rightarrow> bool" where
  "is_space c =
     (let n = (of_char c :: nat)
      in (9 \<le> n \<and> n \<le> 13) \<or> (28 \<le> n \<and> n \<le> 32) \<or> n = 133 \<or> n = 160)"

definition strip_nonempty :: "string \<Rightarrow> bool" where
  "strip_nonempty s = (\<exists>c \<in> set s. \<not> is_space c)"

text \<open>One upstream tool result: \<^verbatim>\<open>{toolUseId, content: [{text}, ...], status}\<close>.\<close>

record tool_result =
  toolUseId :: json
  tr_content :: "json list"
  tr_status :: json

text \<open>The items of a list-valued \<^verbatim>\<open>content\<close> of a tool_result block.\<close>

fun result_items :: "json list \<Rightarrow> json list" where
  "result_items [] = []"
| "result_items (JObj item # items) =
     (if get item ''type'' = JStr ''text'' then get_default item ''text'' (JStr []) # result_items items
      else (case map_of item ''text'' of
              Some v \<Rightarrow> v # result_items items
            | None \<Rightarrow> result_items items))"
| "result_items (JStr s # items) = JStr s # result_items items"
| "result_items (j # items) = result_items items"

text \<open>
  \<^verbatim>\<open>any(i.get("text", "").strip() for i in aq_content)\<close>: it stops at the first text
  that is not blank, and raises AttributeError at a text that is not a string.
\<close>

fun any_text :: "json list \<Rightarrow> error + bool" where
  "any_text [] = Inr False"
| "any_text (JStr s # vs) = (if strip_nonempty s then Inr True else any_text vs)"
| "any_text (v # vs) = Inl AttributeError"

fun extend_existing :: "json \<Rightarrow> json list \<Rightarrow> tool_result list \<Rightarrow> tool_result list option" where
  "extend_existing tid aq_content [] = None"
| "extend_existing tid aq_content (r # rs) =
     (if py_eq (toolUseId r) tid then Some (r\<lparr>tr_content := tr_content r @ aq_content\<rparr> # rs)
      else map_option (\<lambda>rs'. r # rs') (extend_existing tid aq_content rs))"

definition process_tool_result_block :: "dict \<Rightarrow> tool_result list \<Rightarrow> error + tool_result list" where
  "process_tool_result_block block tool_results =
     (let tool_use_id = get block ''tool_use_id'';
          raw_c = get_default block ''content'' (JArr []);
          aq_content = (case raw_c of JStr s \<Rightarrow> [JStr s] | JArr items \<Rightarrow> result_items items | _ \<Rightarrow> [])
      in ebind (any_text aq_content) (\<lambda>some_text.
           let aq_content' =
                 (if \<not> some_text then [JStr ''Tool use was cancelled by the user''] else aq_content)
           in case extend_existing tool_use_id aq_content' tool_results of
                Some tool_results' \<Rightarrow> Inr tool_results'
              | None \<Rightarrow>
                  Inr (tool_results @
                       [\<lparr>toolUseId = tool_use_id, tr_content = aq_content',
                         tr_status = get_default block ''status'' (JStr ''success'')\<rparr>])))"

text \<open>One upstream image: \<^verbatim>\<open>{format, source: {bytes}}\<close>.\<close>

record image =
  img_format :: string
  img_bytes :: json

text \<open>
  \<^verbatim>\<open>media_type.split("/")[-1] if "/" in media_type else "png"\<close>, on whatever JSON value
  the media type is.
\<close>

definition image_format :: "json \<Rightarrow> error + string" where
  "image_format media_type =
     (case media_type of
        JStr s \<Rightarrow> (if CHR ''/'' \<in> set s then Inr (last (str_split CHR ''/'' s)) else Inr ''png'')
      | JArr xs \<Rightarrow> (if JStr ''/'' \<in> set xs then Inl AttributeError else Inr ''png'')
      | JObj kvs \<Rightarrow> (if ''/'' \<in> fst ` set kvs then Inl AttributeError else Inr ''png'')
      | _ \<Rightarrow> Inl TypeError)"

fun block_images :: "dict list \<Rightarrow> error + image list" where
  "block_images [] = Inr []"
| "block_images (block # blocks) =
     (if get block ''type'' = JStr ''image'' then
        (case get_default block ''source'' (JObj []) of
           JObj source \<Rightarrow>
             (if get source ''type'' = JStr ''base64'' then
                ebind (image_format (get_default source ''media_type'' (JStr ''image/png''))) (\<lambda>fmt.
                ebind (block_images blocks) (\<lambda>images.
                  Inr (\<lparr>img_format = fmt, img_bytes = get_default source ''data'' (JStr [])\<rparr> # images)))
              else block_images blocks)
         | _ \<Rightarrow> Inl AttributeError)
      else block_images blocks)"

definition extract_images_from_content :: "content \<Rightarrow> error + image list option" where
  "extract_images_from_content c =
     (case c of
        Text s \<Rightarrow> Inr None
      | Blocks blocks \<Rightarrow>
          ebind (block_images blocks) (\<lambda>images. Inr (if images \<noteq> [] then Some images else None)))"

text \<open>An upstream tool specification.\<close>

record tool_spec =
  ts_name :: string
  ts_description :: string
  ts_input_schema :: dict

definition convert_tool :: "claude_tool \<Rightarrow> tool_spec" where
  "convert_tool tool =
     (let desc = (case ct_description tool of Some d \<Rightarrow> d | None \<Rightarrow> []);
          desc' = (if length desc > 10240
                   then take 10100 desc @ newline @ newline
                        @ ''...(Full description provided in TOOL DOCUMENTATION section)''
                   else desc)
      in \<lparr>ts_name = ct_name tool, ts_description = desc', ts_input_schema = ct_input_schema tool\<rparr>)"

text \<open>\<^verbatim>\<open>userInputMessageContext\<close>: the environment, the tools and the tool results.\<close>

record user_ctx =
  operatingSystem :: string
  currentWorkingDirectory :: string
  ctx_tools :: "tool_spec list option"
  ctx_toolResults :: "tool_result list option"

text \<open>
  A \<^verbatim>\<open>userInputMessage\<close>. A key that is absent and a key that holds None are both
  \<^const>\<open>None\<close>.
\<close>

record user_input_message =
  uim_content :: string
  uim_context :: user_ctx
  uim_origin :: string
  uim_modelId :: "string option"
  uim_images :: "image list option"

text \<open>The images of a user message, none when the key is absent.\<close>

definition images_of :: "user_input_message \<Rightarrow> image list" where
  "images_of u = (case uim_images u of Some imgs \<Rightarrow> imgs | None \<Rightarrow> [])"

definition first_some :: "'a option list \<Rightarrow> 'a option" where
  "first_some xs = (case filter (\<lambda>x. x \<noteq> None) xs of [] \<Rightarrow> None | x # _ \<Rightarrow> x)"

text \<open>\<^verbatim>\<open>xs[-2:]\<close>.\<close>

definition last_two :: "'a list \<Rightarrow> 'a list" where
  "last_two xs = drop (length xs - 2) xs"

text \<open>
  \<^verbatim>\<open>merge_user_messages\<close>; the result None is the empty dict returned for no
  messages. The context and the origin are those of the first message, the model id is
  the first one that is not None.
\<close>

definition merge_user_messages :: "user_input_message list \<Rightarrow> user_input_message option" where
  "merge_user_messages messages =
     (case messages of
        [] \<Rightarrow> None
      | first # _ \<Rightarrow>
          (let all_contents = filter (\<lambda>c. c \<noteq> []) (map uim_content messages);
               base_context = uim_context first;
               base_origin = uim_origin first;
               base_model = first_some (map uim_modelId messages);
               all_images =
                 concat (map (\<lambda>msg. case uim_images msg of
                                       Some imgs \<Rightarrow> (if imgs \<noteq> [] then [imgs] else [])
                                     | None \<Rightarrow> []) messages);
               kept_images = concat (last_two all_images)
           in Some \<lparr>uim_content = str_join (newline @ newline) all_contents,
                    uim_context = base_context,
                    uim_origin = (if base_origin \<noteq> [] then base_origin else ''CLI''),
                    uim_modelId = base_model,
                    uim_images = (if all_images \<noteq> [] \<and> kept_images \<noteq> [] then Some kept_images
                                  else None)\<rparr>))"

text \<open>An upstream tool use and an \<^verbatim>\<open>assistantResponseMessage\<close>.\<close>

record tool_use =
  tu_toolUseId :: json
  tu_name :: json
  tu_input :: json

record assistant_response_message =
  arm_messageId :: string
  arm_content :: string
  arm_toolUses :: "tool_use list option"

text \<open>
  An entry of the first pass of \<^verbatim>\<open>process_history\<close>, and an entry of the history
  it returns; \<open>UserInputEmpty\<close> is \<^verbatim>\<open>{"userInputMessage": {}}\<close>, the entry for a
  merge of no messages.
\<close>

datatype raw_entry =
    RawUser user_input_message
  | RawAssistant assistant_response_message

datatype history_entry =
    UserInputMessage user_input_message
  | UserInputEmpty
  | AssistantResponseMessage assistant_response_message

text \<open>
  The blocks of a user message, in order: the tool results collected so far, and whether
  a tool_result block was seen.
\<close>

fun user_blocks :: "dict list \<Rightarrow> tool_result list option \<Rightarrow> bool \<Rightarrow>
    error + (tool_result list option \<times> bool)" where
  "user_blocks [] tool_results has_tool_result = Inr (tool_results, has_tool_result)"
| "user_blocks (block # blocks) tool_results has_tool_result =
     (if get block ''type'' = JStr ''tool_result'' then
        ebind (process_tool_result_block block (case tool_results of None \<Rightarrow> [] | Some rs \<Rightarrow> rs))
          (\<lambda>rs. user_blocks blocks (Some rs) True)
      else user_blocks blocks tool_results has_tool_result)"

text \<open>
  What both \<^verbatim>\<open>process_history\<close> and the converter read off a user message: the
  images, the tool results, whether there was a tool_result block, and the text.
\<close>

definition user_turn :: "content \<Rightarrow>
    error + (image list option \<times> tool_result list option \<times> bool \<times> string)" where
  "user_turn c =
     ebind (extract_images_from_content c) (\<lambda>images.
       case c of
         Blocks blocks \<Rightarrow>
           ebind (user_blocks blocks None False) (\<lambda>(tool_results, has_tool_result).
           ebind (join_json newline (text_parts blocks)) (\<lambda>text_content.
             Inr (images, tool_results, has_tool_result, text_content)))
       | Text s \<Rightarrow>
           ebind (extract_text_from_content c) (\<lambda>text_content.
             Inr (images, None, False, text_content)))"

definition truthy_results :: "tool_result list option \<Rightarrow> tool_result list option" where
  "truthy_results tool_results =
     (case tool_results of Some rs \<Rightarrow> (if rs \<noteq> [] then Some rs else None) | None \<Rightarrow> None)"

text \<open>
  The tool_use blocks of an assistant message, without those whose id was seen before;
  testing an unhashable id against the set of seen ids raises TypeError.
\<close>

fun assistant_tool_uses :: "dict list \<Rightarrow> json set \<Rightarrow> error + (tool_use list \<times> json set)" where
  "assistant_tool_uses [] seen = Inr ([], seen)"
| "assistant_tool_uses (block # blocks) seen =
     (if get block ''type'' = JStr ''tool_use'' then
        (let tid = get block ''id''
         in if \<not> truthy tid then assistant_tool_uses blocks seen
            else if \<not> hashable tid then Inl TypeError
            else if set_key tid \<in> seen then assistant_tool_uses blocks seen
            else
              ebind (assistant_tool_uses blocks (insert (set_key tid) seen)) (\<lambda>(uses, seen').
                Inr (\<lparr>tu_toolUseId = tid, tu_name = get block ''name'',
                       tu_input = get_default block ''input'' (JObj [])\<rparr> # uses, seen')))
      else assistant_tool_uses blocks seen)"

text \<open>
  The first pass of \<^verbatim>\<open>process_history\<close>: one entry for each user and each assistant
  message, none for another role. \<open>uuid4 n\<close> is the message id drawn for the message
  at position \<open>n\<close>.
\<close>

fun raw_history :: "(nat \<Rightarrow> string) \<Rightarrow> nat \<Rightarrow> claude_message list \<Rightarrow> json set \<Rightarrow>
    error + raw_entry list" where
  "raw_history uuid4 n [] seen = Inr []"
| "raw_history uuid4 n (msg # msgs) seen =
     (if cm_role msg = ''user'' then
        ebind (user_turn (cm_content msg)) (\<lambda>(images, tool_results, has_tool_result, text_content).
        ebind (raw_history uuid4 (n + 1) msgs seen) (\<lambda>rest.
          Inr (RawUser
                 \<lparr>uim_content = text_content,
                  uim_context = \<lparr>operatingSystem = ''macos'', currentWorkingDirectory = ''/'',
                                 ctx_tools = None, ctx_toolResults = truthy_results tool_results\<rparr>,
                  uim_origin = ''CLI'',
                  uim_modelId = None,
                  uim_images = images\<rparr> # rest)))
      else if cm_role msg = ''assistant'' then
        ebind (extract_text_from_content (cm_content msg)) (\<lambda>text_content.
        ebind (case cm_content msg of
                 Blocks blocks \<Rightarrow> assistant_tool_uses blocks seen
               | Text s \<Rightarrow> Inr ([], seen)) (\<lambda>(tool_uses, seen').
        ebind (raw_history uuid4 (n + 1) msgs seen') (\<lambda>rest.
          Inr (RawAssistant
                 \<lparr>arm_messageId = uuid4 n, arm_content = text_content,
                  arm_toolUses = (if tool_uses \<noteq> [] then Some tool_uses else None)\<rparr> # rest))))
      else raw_history uuid4 (n + 1) msgs seen)"

text \<open>\<^verbatim>\<open>{"userInputMessage": merge_user_messages(pending)}\<close>.\<close>

definition merged_entry :: "user_input_message list \<Rightarrow> history_entry" where
  "merged_entry pending_user_msgs =
     (case merge_user_messages pending_user_msgs of
        Some merged \<Rightarrow> UserInputMessage merged
      | None \<Rightarrow> UserInputEmpty)"

text \<open>
  The second pass of \<^verbatim>\<open>process_history\<close>, on the pending user messages and the
  entries still to read.
\<close>

fun merge_pass :: "user_input_message list \<Rightarrow> raw_entry list \<Rightarrow> history_entry list" where
  "merge_pass pending_user_msgs [] =
     (if pending_user_msgs \<noteq> [] then [merged_entry pending_user_msgs] else [])"
| "merge_pass pending_user_msgs (RawUser u # items) =
     merge_pass (pending_user_msgs @ [u]) items"
| "merge_pass pending_user_msgs (RawAssistant a # items) =
     (if pending_user_msgs \<noteq> [] then [merged_entry pending_user_msgs] else [])
     @ AssistantResponseMessage a # merge_pass [] items"

definition process_history :: "(nat \<Rightarrow> string) \<Rightarrow> claude_message list \<Rightarrow> error + history_entry list" where
  "process_history uuid4 messages =
     ebind (raw_history uuid4 0 messages {}) (\<lambda>raw. Inr (merge_pass [] raw))"

text \<open>The three blocks of the text body of the current turn.\<close>

definition user_message_block :: "string \<Rightarrow> string \<Rightarrow> string" where
  "user_message_block timestamp prompt_content =
     ''--- CONTEXT ENTRY BEGIN ---'' @ newline
     @ ''Current time: '' @ timestamp @ newline
     @ ''--- CONTEXT ENTRY END ---'' @ newline @ newline
     @ ''--- USER MESSAGE BEGIN ---'' @ newline
     @ prompt_content @ newline
     @ ''--- USER MESSAGE END ---''"

definition tool_documentation_block :: "(string \<times> string) list \<Rightarrow> string" where
  "tool_documentation_block long_desc_tools =
     ''--- TOOL DOCUMENTATION BEGIN ---'' @ newline
     @ concat (map (\<lambda>(name, full_description).
                 ''Tool: '' @ name @ newline @ ''Full Description:'' @ newline
                 @ full_description @ newline) long_desc_tools)
     @ ''--- TOOL DOCUMENTATION END ---'' @ newline @ newline"

definition system_prompt_block :: "string \<Rightarrow> string" where
  "system_prompt_block sys_text =
     ''--- SYSTEM PROMPT BEGIN ---'' @ newline
     @ sys_text @ newline
     @ ''--- SYSTEM PROMPT END ---'' @ newline @ newline"

text \<open>The tools whose description is longer than 10240 characters, with the full text.\<close>

definition long_desc_tools_of :: "claude_tool list option \<Rightarrow> (string \<times> string) list" where
  "long_desc_tools_of tools =
     concat (map (\<lambda>t. case ct_description t of
                          Some d \<Rightarrow> (if d \<noteq> [] \<and> length d > 10240 then [(ct_name t, d)] else [])
                        | None \<Rightarrow> [])
               (case tools of Some ts \<Rightarrow> ts | None \<Rightarrow> []))"

text \<open>The current turn: the last message when it is a user message.\<close>

definition current_turn :: "claude_message list \<Rightarrow>
    error + (image list option \<times> tool_result list option \<times> bool \<times> string)" where
  "current_turn messages =
     (if messages \<noteq> [] \<and> cm_role (last messages) = ''user''
      then user_turn (cm_content (last messages))
      else Inr (None, None, False, []))"

text \<open>
  The text of the system prompt, read only when the request has a truthy system prompt
  and the body built so far is not empty; None when it is not read.
\<close>

definition system_text :: "content option \<Rightarrow> string \<Rightarrow> error + string option" where
  "system_text system formatted_content =
     (case system of
        None \<Rightarrow> Inr None
      | Some (Text s) \<Rightarrow> Inr (if s \<noteq> [] \<and> formatted_content \<noteq> [] then Some s else None)
      | Some (Blocks bs) \<Rightarrow>
          (if bs \<noteq> [] \<and> formatted_content \<noteq> []
           then ebind (join_json newline (text_parts bs)) (\<lambda>s. Inr (Some s))
           else Inr None))"

text \<open>The request body sent upstream.\<close>

record amazonq_request =
  conversationId :: string
  history :: "history_entry list"
  currentMessage :: user_input_message
  chatTriggerType :: string

text \<open>
  \<^verbatim>\<open>convert_claude_to_amazonq_request\<close>, with the conversation id given; the time
  stamp is what \<^verbatim>\<open>get_current_timestamp\<close> returns.
\<close>

definition convert_claude_to_amazonq_request ::
  "string \<Rightarrow> (nat \<Rightarrow> string) \<Rightarrow> claude_request \<Rightarrow> string \<Rightarrow> error + amazonq_request" where
  "convert_claude_to_amazonq_request timestamp uuid4 req conversation_id' =
     (let aq_tools = map convert_tool (case cr_tools req of Some ts \<Rightarrow> ts | None \<Rightarrow> []);
          long_desc_tools = long_desc_tools_of (cr_tools req)
      in ebind (current_turn (cr_messages req))
           (\<lambda>(images, tool_results, has_tool_result, prompt_content).
         let user_ctx = \<lparr>operatingSystem = ''macos'', currentWorkingDirectory = ''/'',
                          ctx_tools = (if aq_tools \<noteq> [] then Some aq_tools else None),
                          ctx_toolResults = truthy_results tool_results\<rparr>;
             formatted_content0 =
               (if has_tool_result \<and> prompt_content = [] then []
                else user_message_block timestamp prompt_content);
             formatted_content1 =
               (if long_desc_tools \<noteq> []
                then tool_documentation_block long_desc_tools @ formatted_content0
                else formatted_content0)
         in ebind (system_text (cr_system req) formatted_content1) (\<lambda>sys_text.
            let formatted_content2 =
                  (case sys_text of
                     Some s \<Rightarrow> (if s \<noteq> [] then system_prompt_block s @ formatted_content1
                                else formatted_content1)
                   | None \<Rightarrow> formatted_content1);
                model_id = map_model_name (cr_model req);
                user_input_msg =
                  \<lparr>uim_content = formatted_content2, uim_context = user_ctx, uim_origin = ''CLI'',
                   uim_modelId = Some model_id, uim_images = images\<rparr>;
                history_msgs = (if length (cr_messages req) > 1 then butlast (cr_messages req) else [])
            in ebind (process_history uuid4 history_msgs) (\<lambda>aq_history.
                 Inr \<lparr>conversationId = conversation_id', history = aq_history,
                       currentMessage = user_input_msg, chatTriggerType = ''MANUAL''\<rparr>))))"

section \<open>The aggregated response (api/server.py)\<close>

text \<open>One yielded string: the events it holds, each through \<^verbatim>\<open>_sse_format\<close>.\<close>

definition sse_text :: "(json \<Rightarrow> string) \<Rightarrow> sse_event list \<Rightarrow> string" where
  "sse_text dumps events = concat (map (sse_format dumps) events)"

text \<open>\<^verbatim>\<open>s.strip()\<close>.\<close>

definition str_strip :: "string \<Rightarrow> string" where
  "str_strip s = dropWhile is_space (rev (dropWhile is_space (rev s)))"

text \<open>A JSON value used as an integer: \<^verbatim>\<open>True\<close> is 1 and \<^verbatim>\<open>False\<close> is 0.\<close>

fun int_of_json :: "json \<Rightarrow> int option" where
  "int_of_json (JInt i) = Some i"
| "int_of_json (JBool b) = Some (if b then 1 else 0)"
| "int_of_json j = None"

text \<open>
  The position that \<^verbatim>\<open>xs[idx]\<close> reads or writes in a list of length \<open>n\<close>: TypeError when
  the index is not an integer, IndexError when it is out of range; a negative index counts
  from the end.
\<close>

definition py_index :: "nat \<Rightarrow> json \<Rightarrow> error + nat" where
  "py_index n idx =
     (case int_of_json idx of
        None \<Rightarrow> Inl TypeError
      | Some i \<Rightarrow>
          if 0 \<le> i \<and> i < int n then Inr (nat i)
          else if - int n \<le> i \<and> i < 0 then Inr (nat (int n + i))
          else Inl IndexError)"

text \<open>
  \<^verbatim>\<open>x += y\<close> on JSON values: strings and lists are appended to, integers added; a list
  is extended by the characters of a string and by the keys of a dict. None is TypeError.
\<close>

fun py_iadd :: "json \<Rightarrow> json \<Rightarrow> json option" where
  "py_iadd (JStr a) (JStr b) = Some (JStr (a @ b))"
| "py_iadd (JArr xs) (JArr ys) = Some (JArr (xs @ ys))"
| "py_iadd (JArr xs) (JStr s) = Some (JArr (xs @ map (\<lambda>c. JStr [c]) s))"
| "py_iadd (JArr xs) (JObj kvs) = Some (JArr (xs @ map (\<lambda>kv. JStr (fst kv)) kvs))"
| "py_iadd x y =
     (case (int_of_json x, int_of_json y) of
        (Some a, Some b) \<Rightarrow> Some (JInt (a + b))
      | _ \<Rightarrow> None)"

text \<open>
  What the non-streaming branch accumulates. In \<^verbatim>\<open>final_content\<close> Python's None,
  the placeholder of a block not yet started, is \<^const>\<open>JNull\<close>.
\<close>

record aggregate =
  final_content :: "json list"
  usage :: json
  stop_reason :: json

definition init_aggregate :: aggregate where
  "init_aggregate = \<lparr>
     final_content = [],
     usage = JObj [(''input_tokens'', JInt 0), (''output_tokens'', JInt 0)],
     stop_reason = JNull \<rparr>"

text \<open>
  The body of the \<^verbatim>\<open>try\<close> once \<^verbatim>\<open>json.loads\<close> returned \<open>data\<close>. The bare
  \<^verbatim>\<open>except: pass\<close> swallows every exception, so the result is the state as the
  statements before the exception left it.
\<close>

definition aggregate_block_start :: "dict \<Rightarrow> aggregate \<Rightarrow> aggregate" where
  "aggregate_block_start data st =
     (let idx = get_default data ''index'' (JInt 0)
      in case int_of_json idx of
           None \<Rightarrow> st
         | Some i \<Rightarrow>
             (let fc = final_content st;
                  fc' = (if int (length fc) \<le> i
                         then fc @ replicate (nat (i + 1) - length fc) JNull else fc)
              in case py_index (length fc') idx of
                   Inl e \<Rightarrow> st\<lparr>final_content := fc'\<rparr>
                 | Inr k \<Rightarrow> st\<lparr>final_content := fc'[k := get data ''content_block'']\<rparr>))"

definition aggregate_block_delta :: "dict \<Rightarrow> aggregate \<Rightarrow> aggregate" where
  "aggregate_block_delta data st =
     (let idx = get_default data ''index'' (JInt 0);
          delta = get_default data ''delta'' (JObj []);
          fc = final_content st
      in case py_index (length fc) idx of
           Inl e \<Rightarrow> st
         | Inr k \<Rightarrow>
             if \<not> truthy (fc ! k) then st
             else
               (case delta of
                  JObj dl \<Rightarrow>
                    if get dl ''type'' = JStr ''text_delta'' then
                      (case fc ! k of
                         JObj block \<Rightarrow>
                           (case map_of block ''text'' of
                              None \<Rightarrow> st
                            | Some t \<Rightarrow>
                                (case py_iadd t (get_default dl ''text'' (JStr [])) of
                                   None \<Rightarrow> st
                                 | Some t' \<Rightarrow>
                                     st\<lparr>final_content :=
                                          fc[k := JObj (AList.update ''text'' t' block)]\<rparr>))
                       | _ \<Rightarrow> st)
                    else if get dl ''type'' = JStr ''input_json_delta'' then
                      (case fc ! k of
                         JObj block \<Rightarrow>
                           (let block1 = (if map_of block ''partial_json'' = None
                                          then AList.update ''partial_json'' (JStr []) block
                                          else block)
                            in case py_iadd (get block1 ''partial_json'')
                                      (get_default dl ''partial_json'' (JStr [])) of
                                 None \<Rightarrow> st\<lparr>final_content := fc[k := JObj block1]\<rparr>
                               | Some v \<Rightarrow>
                                   st\<lparr>final_content :=
                                        fc[k := JObj (AList.update ''partial_json'' v block1)]\<rparr>)
                       | _ \<Rightarrow> st)
                    else st
                | _ \<Rightarrow> st))"

text \<open>
  At the stop of a tool_use block that has a \<^verbatim>\<open>partial_json\<close>, the input becomes the
  parsed text when \<^verbatim>\<open>json.loads\<close> accepts it (a text that is a string); the inner
  bare \<^verbatim>\<open>except: pass\<close> swallows every exception of the call, and the
  \<^verbatim>\<open>partial_json\<close> is deleted either way.
\<close>

definition aggregate_block_stop :: "(string \<Rightarrow> error + json) \<Rightarrow> dict \<Rightarrow> aggregate \<Rightarrow> aggregate" where
  "aggregate_block_stop loads data st =
     (let idx = get_default data ''index'' (JInt 0);
          fc = final_content st
      in case py_index (length fc) idx of
           Inl e \<Rightarrow> st
         | Inr k \<Rightarrow>
             if \<not> truthy (fc ! k) then st
             else
               (case fc ! k of
                  JObj block \<Rightarrow>
                    if map_of block ''type'' = Some (JStr ''tool_use'') then
                      (case map_of block ''partial_json'' of
                         None \<Rightarrow> st
                       | Some pj \<Rightarrow>
                           (let parsed = (case pj of
                                            JStr s \<Rightarrow>
                                              (case loads s of Inr v \<Rightarrow> Some v | Inl e \<Rightarrow> None)
                                          | _ \<Rightarrow> None);
                                block1 = (case parsed of
                                            Some v \<Rightarrow> AList.update ''input'' v block
                                          | None \<Rightarrow> block)
                            in st\<lparr>final_content :=
                                    fc[k := JObj (AList.delete ''partial_json'' block1)]\<rparr>))
                    else st
                | _ \<Rightarrow> st))"

definition aggregate_message_delta :: "dict \<Rightarrow> aggregate \<Rightarrow> aggregate" where
  "aggregate_message_delta data st =
     (let st1 = st\<lparr>usage := get_default data ''usage'' (usage st)\<rparr>
      in case get_default data ''delta'' (JObj []) of
           JObj dl \<Rightarrow> st1\<lparr>stop_reason := get dl ''stop_reason''\<rparr>
         | _ \<Rightarrow> st1)"

definition aggregate_data :: "(string \<Rightarrow> error + json) \<Rightarrow> json \<Rightarrow> aggregate \<Rightarrow> aggregate" where
  "aggregate_data loads data st =
     (case data of
        JObj d \<Rightarrow>
          (let dtype = get d ''type''
           in if dtype = JStr ''content_block_start'' then aggregate_block_start d st
              else if dtype = JStr ''content_block_delta'' then aggregate_block_delta d st
              else if dtype = JStr ''content_block_stop'' then aggregate_block_stop loads d st
              else if dtype = JStr ''message_delta'' then aggregate_message_delta d st
              else st)
      | _ \<Rightarrow> st)"

text \<open>One turn of the loop over the strings of \<^verbatim>\<open>event_generator\<close>.\<close>

definition aggregate_line :: "(string \<Rightarrow> error + json) \<Rightarrow> aggregate \<Rightarrow> string \<Rightarrow> aggregate" where
  "aggregate_line loads st sse_line =
     (if prefix ''data: '' sse_line then
        (let data_str = str_strip (drop 6 sse_line)
         in if data_str = ''[DONE]'' then st
            else (case loads data_str of
                    Inl e \<Rightarrow> st
                  | Inr data \<Rightarrow> aggregate_data loads data st))
      else st)"

text \<open>
  The non-streaming answer of \<^verbatim>\<open>claude_messages\<close> to the upstream events: its
  content, stop reason and usage, or the exception of the stream handler.
\<close>

definition claude_messages_response ::
  "(json \<Rightarrow> string) \<Rightarrow> (string \<Rightarrow> error + json) \<Rightarrow> string \<Rightarrow> (string \<times> dict) list \<Rightarrow>
   error + (json list \<times> json \<times> json)" where
  "claude_messages_response dumps loads req_model events =
     (case event_generator dumps (init_handler req_model 0) events of
        (out, Inl e) \<Rightarrow> Inl e
      | (out, Inr h) \<Rightarrow>
          (let st = foldl (aggregate_line loads) init_aggregate (map (sse_text dumps) out)
           in Inr (filter (\<lambda>c. c \<noteq> JNull) (final_content st), stop_reason st, usage st)))"

section \<open>Properties of the stream handler\<close>

lemmas builder_defs =
  build_message_start_def build_content_block_start_def build_content_block_delta_def
  build_content_block_stop_def build_ping_def build_message_stop_def
  build_tool_use_start_def build_tool_use_input_delta_def

lemmas handler_defs =
  handle_event_def handle_initial_response_def handle_assistant_response_def
  handle_tool_use_def tool_use_start_def tool_use_input_def tool_use_stop_def
  handle_assistant_end_def finish_def init_handler_def
  tool_active_def get_def get_default_def Let_def

text \<open>
  Claim C10. An event whose type is none of \<^verbatim>\<open>initial-response\<close>,
  \<^verbatim>\<open>assistantResponseEvent\<close>, \<^verbatim>\<open>toolUseEvent\<close> and \<^verbatim>\<open>assistantResponseEnd\<close>
  makes \<^verbatim>\<open>handle_event\<close> yield nothing, raise nothing and leave the whole handler
  (every field of the record) as it was.
\<close>

theorem unknown_event_ignored:
  assumes "event_type \<noteq> ''initial-response''"
    and "event_type \<noteq> ''assistantResponseEvent''"
    and "event_type \<noteq> ''toolUseEvent''"
    and "event_type \<noteq> ''assistantResponseEnd''"
  shows "handle_event dumps h event_type payload = ([], Inr h)"
  using assms by (simp add: handle_event_def)

theorem unknown_event_ignored_witness:
  "handle_event (\<lambda>j. ''{}'') (init_handler ''claude-sonnet-4'' 0) ''messageMetadataEvent''
     [(''conversationId'', JStr ''c1'')]
   = ([], Inr (init_handler ''claude-sonnet-4'' 0))"
  by (rule unknown_event_ignored) simp_all

lemma block_trace_append:
  "block_trace opn (xs @ ys) = Option.bind (block_trace opn xs) (\<lambda>o'. block_trace o' ys)"
  by (induction xs arbitrary: opn) simp_all

lemma step_ok_append:
  assumes "step_ok h (o1, Inr h1)" and "step_ok h1 (o2, r)"
  shows "step_ok h (o1 @ o2, r)"
  using assms by (cases r) (simp_all add: step_ok_def events_of_def block_trace_append)

lemma initial_ok: "flags_ok h \<longrightarrow> step_ok h (handle_initial_response h payload)"
  by (cases "content_block_start_sent h"; cases "content_block_stop_sent h";
      cases "content_block_started h"; cases "current_tool_use h")
     (simp_all add: step_ok_def handle_initial_response_def Let_def events_of_def builder_defs
      flags_ok_def block_open_def tool_active_def)

lemma assistant_ok: "flags_ok h \<longrightarrow> step_ok h (handle_assistant_response h payload)"
  by (cases "content_block_start_sent h"; cases "content_block_stop_sent h";
      cases "content_block_started h"; cases "current_tool_use h")
     (simp_all add: step_ok_def handle_assistant_response_def Let_def events_of_def builder_defs
      flags_ok_def block_open_def tool_active_def)

lemma end_ok: "flags_ok h \<longrightarrow> step_ok h (handle_assistant_end h)"
  by (cases "content_block_start_sent h"; cases "content_block_stop_sent h";
      cases "content_block_started h"; cases "current_tool_use h")
     (simp_all add: step_ok_def handle_assistant_end_def Let_def events_of_def builder_defs
      flags_ok_def block_open_def tool_active_def)

lemma tool_start_ok: "flags_ok h \<longrightarrow> step_ok h (tool_use_start h i nm)"
  by (cases "content_block_start_sent h"; cases "content_block_stop_sent h";
      cases "content_block_started h"; cases "current_tool_use h")
     (auto simp add: step_ok_def tool_use_start_def Let_def events_of_def builder_defs
      flags_ok_def block_open_def tool_active_def)

lemma tool_input_ok:
  "flags_ok h \<longrightarrow>
     step_ok h (fst (tool_use_input dumps h ti), Inr (snd (tool_use_input dumps h ti)))"
  by (cases "content_block_start_sent h"; cases "content_block_stop_sent h";
      cases "content_block_started h"; cases "current_tool_use h")
     (simp_all add: step_ok_def tool_use_input_def Let_def events_of_def builder_defs
      flags_ok_def block_open_def tool_active_def)

lemma tool_stop_ok:
  "flags_ok h \<longrightarrow> step_ok h (fst (tool_use_stop h st), Inr (snd (tool_use_stop h st)))"
  by (cases "content_block_start_sent h"; cases "content_block_stop_sent h";
      cases "content_block_started h"; cases "current_tool_use h")
     (simp_all add: step_ok_def tool_use_stop_def Let_def events_of_def builder_defs
      flags_ok_def block_open_def tool_active_def)

lemma step_ok_flags: "step_ok h (out, Inr h') \<Longrightarrow> flags_ok h'"
  by (simp add: step_ok_def)

lemma tool_ok:
  assumes "flags_ok h"
  shows "step_ok h (handle_tool_use dumps h payload)"
proof -
  let ?i = "get payload ''toolUseId''" and ?n = "get payload ''name''"
  let ?ti = "get_default payload ''input'' (JObj [])"
  let ?st = "get_default payload ''stop'' (JBool False)"
  obtain o1 r1 where s1: "tool_use_start h ?i ?n = (o1, r1)"
    by (cases "tool_use_start h ?i ?n")
  have ok1: "step_ok h (o1, r1)" using tool_start_ok[of h ?i ?n] assms s1 by simp
  show ?thesis
  proof (cases r1)
    case (Inl e)
    then show ?thesis using ok1 s1 by (simp add: handle_tool_use_def Let_def)
  next
    case (Inr h1)
    obtain o2 h2 where s2: "tool_use_input dumps h1 ?ti = (o2, h2)"
      by (cases "tool_use_input dumps h1 ?ti")
    obtain o3 h3 where s3: "tool_use_stop h2 ?st = (o3, h3)"
      by (cases "tool_use_stop h2 ?st")
    have f1: "flags_ok h1" using ok1 Inr by (simp add: step_ok_flags)
    have ok2: "step_ok h1 (o2, Inr h2)" using tool_input_ok[of h1 dumps ?ti] f1 s2 by simp
    have f2: "flags_ok h2" using ok2 by (simp add: step_ok_flags)
    have ok3: "step_ok h2 (o3, Inr h3)" using tool_stop_ok[of h2 ?st] f2 s3 by simp
    have "step_ok h (o1 @ o2 @ o3, Inr h3)"
      using ok1 Inr step_ok_append[OF _ step_ok_append[OF ok2 ok3]] by simp
    moreover have "handle_tool_use dumps h payload = (o1 @ o2 @ o3, Inr h3)"
      using s1 s2 s3 Inr by (simp add: handle_tool_use_def Let_def)
    ultimately show ?thesis by simp
  qed
qed

lemma handle_event_ok: "flags_ok h \<Longrightarrow> step_ok h (handle_event dumps h event_type payload)"
  using initial_ok[of h payload] assistant_ok[of h payload] end_ok[of h] tool_ok[of h dumps payload]
  by (simp add: handle_event_def step_ok_def events_of_def)

lemma finish_ok: "flags_ok h \<longrightarrow> step_ok h (finish h)"
  by (cases "content_block_start_sent h"; cases "content_block_stop_sent h";
      cases "content_block_started h"; cases "current_tool_use h")
     (auto simp add: step_ok_def finish_def Let_def events_of_def builder_defs
      flags_ok_def block_open_def tool_active_def split: option.splits)

lemma finish_closed:
  "flags_ok h \<longrightarrow> (case finish h of (out, Inr h') \<Rightarrow> \<not> block_open h' | (out, Inl e) \<Rightarrow> True)"
  by (cases "content_block_start_sent h"; cases "content_block_stop_sent h";
      cases "content_block_started h"; cases "current_tool_use h")
     (simp_all add: finish_def Let_def flags_ok_def block_open_def tool_active_def
      split: option.splits)

lemma event_generator_ok:
  "flags_ok h \<Longrightarrow> step_ok h (event_generator dumps h evs)"
proof (induction evs arbitrary: h)
  case Nil
  then show ?case using finish_ok[of h] by simp
next
  case (Cons ev evs)
  obtain t p where ev: "ev = (t, p)" by (cases ev)
  obtain o1 r1 where s1: "handle_event dumps h t p = (o1, r1)" by (cases "handle_event dumps h t p")
  have ok1: "step_ok h (o1, r1)" using handle_event_ok[OF Cons.prems, where dumps = dumps and event_type = t and payload = p] s1 by simp
  show ?case
  proof (cases r1)
    case (Inl e)
    then show ?thesis using ok1 s1 ev by simp
  next
    case (Inr h1)
    obtain o2 r2 where s2: "event_generator dumps h1 evs = (o2, r2)"
      by (cases "event_generator dumps h1 evs")
    have "flags_ok h1" using ok1 Inr by (simp add: step_ok_flags)
    then have "step_ok h1 (o2, r2)" using Cons.IH[of h1] s2 by simp
    then have "step_ok h (o1 @ o2, r2)" using ok1 Inr step_ok_append by blast
    then show ?thesis using s1 s2 ev Inr by simp
  qed
qed

lemma event_generator_closed:
  "flags_ok h \<Longrightarrow> event_generator dumps h evs = (out, Inr h') \<Longrightarrow> \<not> block_open h'"
proof (induction evs arbitrary: h out)
  case Nil
  then show ?case using finish_closed[of h] by simp
next
  case (Cons ev evs)
  obtain t p where ev: "ev = (t, p)" by (cases ev)
  obtain o1 r1 where s1: "handle_event dumps h t p = (o1, r1)" by (cases "handle_event dumps h t p")
  have ok1: "step_ok h (o1, r1)" using handle_event_ok[OF Cons.prems(1), where dumps = dumps and event_type = t and payload = p] s1 by simp
  show ?case
  proof (cases r1)
    case (Inl e)
    then show ?thesis using Cons.prems(2) s1 ev by simp
  next
    case (Inr h1)
    obtain o2 r2 where s2: "event_generator dumps h1 evs = (o2, r2)"
      by (cases "event_generator dumps h1 evs")
    have f1: "flags_ok h1" using ok1 Inr by (simp add: step_ok_flags)
    from Cons.prems(2) s1 s2 ev Inr have "r2 = Inr h'" by simp
    then show ?thesis using Cons.IH[OF f1] s2 by simp
  qed
qed

lemma block_trace_count:
  "block_trace opn es = Some b \<Longrightarrow>
     length (filter (\<lambda>e. fst e = ''content_block_start'') es) + (if opn then 1 else 0)
       \<le> length (filter (\<lambda>e. fst e = ''content_block_stop'') es) + (if b then 1 else 0)"
proof (induction es arbitrary: opn)
  case Nil
  then show ?case by simp
next
  case (Cons e es)
  show ?case
  proof (cases "fst e = ''content_block_start''")
    case True
    with Cons.prems have o: "\<not> opn" and r: "block_trace True es = Some b"
      by (simp_all split: if_splits)
    from Cons.IH[OF r] True o show ?thesis by simp
  next
    case False
    show ?thesis
    proof (cases "fst e = ''content_block_stop''")
      case True
      with False Cons.prems have r: "block_trace False es = Some b" by simp
      from Cons.IH[OF r] True False show ?thesis by (simp split: if_splits)
    next
      case nstop: False
      with False Cons.prems have r: "block_trace opn es = Some b" by simp
      from Cons.IH[OF r] nstop False show ?thesis by simp
    qed
  qed
qed

lemma block_trace_no_stop:
  "block_trace True ys = Some b \<Longrightarrow> \<forall>e\<in>set ys. fst e \<noteq> ''content_block_stop'' \<Longrightarrow> b"
  by (induction ys) (simp_all split: if_splits)

lemma block_trace_between:
  assumes "block_trace opn (xs @ s1 # ys @ s2 # zs) \<noteq> None"
    and "fst s1 = ''content_block_start''" and "fst s2 = ''content_block_start''"
  shows "\<exists>e\<in>set ys. fst e = ''content_block_stop''"
proof (rule ccontr)
  assume n: "\<not> (\<exists>e\<in>set ys. fst e = ''content_block_stop'')"
  from assms(1) obtain o1 where o1: "block_trace opn xs = Some o1"
    and r1: "block_trace o1 (s1 # ys @ s2 # zs) \<noteq> None"
    by (cases "block_trace opn xs") (simp_all add: block_trace_append)
  from r1 assms(2) have r2: "block_trace True (ys @ s2 # zs) \<noteq> None"
    by (simp split: if_splits)
  then obtain o2 where o2: "block_trace True ys = Some o2"
    and r3: "block_trace o2 (s2 # zs) \<noteq> None"
    by (cases "block_trace True ys") (simp_all add: block_trace_append)
  from block_trace_no_stop[OF o2] n have "o2" by blast
  with r3 assms(3) show False by simp
qed

lemma init_flags_ok: "flags_ok (init_handler m n)"
  by (simp add: flags_ok_def block_open_def init_handler_def tool_active_def)

lemma init_closed: "\<not> block_open (init_handler m n)"
  by (simp add: block_open_def init_handler_def)

text \<open>
  What holds of every stream, whatever the events: a content_block_start is never
  emitted while a block is open, so between two starts there is a stop; and a stream that
  ends without an exception has closed its last block, so it has at least as many stops
  as starts.
\<close>

theorem blocks_never_overlap:
  assumes "event_generator dumps (init_handler m n) evs = (out, r)"
  shows "block_trace False (events_of out) \<noteq> None"
    and "events_of out = xs @ s1 # ys @ s2 # zs \<Longrightarrow> fst s1 = ''content_block_start'' \<Longrightarrow>
         fst s2 = ''content_block_start'' \<Longrightarrow> \<exists>e\<in>set ys. fst e = ''content_block_stop''"
    and "r = Inr h' \<Longrightarrow> count_type ''content_block_start'' out \<le> count_type ''content_block_stop'' out"
proof -
  have ok: "step_ok (init_handler m n) (out, r)"
    using event_generator_ok[OF init_flags_ok[of m n], where dumps = dumps and evs = evs] assms by simp
  show t: "block_trace False (events_of out) \<noteq> None"
    using ok init_closed[of m n] by (cases r) (auto simp: step_ok_def)
  show "\<exists>e\<in>set ys. fst e = ''content_block_stop''"
    if "events_of out = xs @ s1 # ys @ s2 # zs" "fst s1 = ''content_block_start''"
      "fst s2 = ''content_block_start''"
    using block_trace_between[of False xs s1 ys s2 zs] t that by simp
  show "count_type ''content_block_start'' out \<le> count_type ''content_block_stop'' out"
    if r: "r = Inr h'"
  proof -
    have c: "\<not> block_open h'"
      using event_generator_closed[OF init_flags_ok[of m n]] assms r by blast
    have "block_trace False (events_of out) = Some False"
      using ok r c init_closed[of m n] by (simp add: step_ok_def)
    from block_trace_count[OF this] show ?thesis by (simp add: count_type_def)
  qed
qed

text \<open>
  Claim C1 (the count of content_block_stop events equals the count of
  content_block_start events) fails on the code: there can be more stops than starts.
  The stop branch of \<^verbatim>\<open>toolUseEvent\<close> yields a content_block_stop without testing
  \<^verbatim>\<open>content_block_stop_sent\<close>, which every other closing path tests. A tool use
  opened, closed by \<^verbatim>\<open>assistantResponseEnd\<close> and then stopped by a
  \<^verbatim>\<open>toolUseEvent\<close> with \<^verbatim>\<open>stop=true\<close> is closed twice: one start, two stops.
\<close>

theorem tool_block_closed_twice:
  "map (map fst) (fst (event_generator dumps (init_handler m n)
       [(''toolUseEvent'', [(''toolUseId'', JStr ''t1''), (''name'', JStr ''bash'')]),
        (''assistantResponseEnd'', []),
        (''toolUseEvent'', [(''stop'', JBool True)])]))
     = [[''content_block_start''], [''content_block_stop''], [''content_block_stop''],
        [''message_delta'', ''message_stop'']]
   \<and> count_type ''content_block_start'' (fst (event_generator dumps (init_handler m n)
       [(''toolUseEvent'', [(''toolUseId'', JStr ''t1''), (''name'', JStr ''bash'')]),
        (''assistantResponseEnd'', []),
        (''toolUseEvent'', [(''stop'', JBool True)])])) = 1
   \<and> count_type ''content_block_stop'' (fst (event_generator dumps (init_handler m n)
       [(''toolUseEvent'', [(''toolUseId'', JStr ''t1''), (''name'', JStr ''bash'')]),
        (''assistantResponseEnd'', []),
        (''toolUseEvent'', [(''stop'', JBool True)])])) = 2"
  by (simp add: count_type_def events_of_def handler_defs builder_defs)

text \<open>
  What holds of an \<^verbatim>\<open>assistantResponseEvent\<close>: an open tool-use block is closed
  first, and while no block was ever started the text block is opened with the next
  index before the delta.
\<close>

lemma assistant_closes_open_tool:
  assumes "tool_active h" and "\<not> content_block_stop_sent h"
  shows "\<exists>rest. fst (handle_assistant_response h payload)
           = build_content_block_stop (content_block_index h) # rest"
  using assms by (simp add: handle_assistant_response_def Let_def split_beta)

lemma assistant_opens_first_block:
  assumes "\<not> content_block_start_sent h" and "\<not> tool_active h"
  shows "fst (handle_assistant_response h payload)
           = build_content_block_start (content_block_index h + 1) ''text''
             # (if truthy (get_default payload ''content'' (JStr []))
                then [build_content_block_delta (content_block_index h + 1)
                        (get_default payload ''content'' (JStr []))]
                else [])"
  using assms by (simp add: handle_assistant_response_def Let_def)

text \<open>
  Claim C4 (an \<^verbatim>\<open>assistantResponseEvent\<close> that finds no text block open opens one
  with the next index before its text delta) fails on the code: the text block is
  opened only while \<^verbatim>\<open>content_block_start_sent\<close> is false, and no path ever resets
  that flag. After a tool use was opened, the event closes the tool block and then
  yields its text delta on the index of the block it has just closed, with no
  content_block_start.
\<close>

theorem text_after_tool_use_opens_no_block:
  "fst (event_generator dumps (init_handler m n)
       [(''toolUseEvent'', [(''toolUseId'', JStr ''t1''), (''name'', JStr ''bash'')]),
        (''assistantResponseEvent'', [(''content'', JStr ''hi'')])])
     = [build_tool_use_start 0 (JStr ''t1'') (JStr ''bash''),
        build_content_block_stop 0,
        build_content_block_delta 0 (JStr ''hi''),
        build_message_stop n 1 ''end_turn'']"
  by (simp add: handler_defs)
section \<open>Properties of the model mapping\<close>

lemma lower_char_eq_iff:
  assumes d: "\<not> is_capital d"
  shows "lower_char c = d \<longleftrightarrow> same_letter c d"
proof (cases "is_capital c")
  case True
  then have l: "lower_char c = char_of ((of_char c :: nat) + 32)"
    by (simp add: lower_char_def is_capital_def Let_def)
  have ne: "c \<noteq> d"
    using True d by auto
  have "char_of ((of_char c :: nat) + 32) = d \<longleftrightarrow> (of_char d :: nat) = of_char c + 32"
  proof
    assume "char_of ((of_char c :: nat) + 32) = d"
    then have "(of_char d :: nat) = (of_char c + 32) mod 256"
      by auto
    then show "(of_char d :: nat) = of_char c + 32"
      using True by (simp add: is_capital_def)
  next
    assume "(of_char d :: nat) = of_char c + 32"
    then have "char_of ((of_char c :: nat) + 32) = char_of (of_char d :: nat)"
      by simp
    then show "char_of ((of_char c :: nat) + 32) = d"
      by simp
  qed
  then show ?thesis
    using l ne True d by (simp add: same_letter_def)
next
  case False
  then have "lower_char c = c"
    by (auto simp: lower_char_def is_capital_def Let_def)
  then show ?thesis
    using False d by (auto simp: same_letter_def)
qed

lemma prefix_lower_iff:
  assumes lp: "\<forall>d\<in>set p. \<not> is_capital d"
  shows "prefix p (str_lower s) = matches_ci p s"
proof -
  have "prefix p (str_lower s) \<longleftrightarrow> length p \<le> length s \<and> take (length p) (str_lower s) = p"
    by (metis length_map prefix_def append_eq_conv_conj str_lower_def prefix_length_le
        take_is_prefix)
  also have "\<dots> \<longleftrightarrow> length p \<le> length s \<and> map lower_char (take (length p) s) = p"
    by (simp add: str_lower_def take_map)
  also have "\<dots> \<longleftrightarrow> matches_ci p s"
    using lp
    by (auto simp: matches_ci_def list_all2_conv_all_nth list_eq_iff_nth_eq lower_char_eq_iff)
  finally show ?thesis .
qed

lemma lower_prefix_dot: "\<forall>d\<in>set ''claude-sonnet-4.5''. \<not> is_capital d"
  by (simp add: is_capital_def)

lemma lower_prefix_dash: "\<forall>d\<in>set ''claude-sonnet-4-5''. \<not> is_capital d"
  by (simp add: is_capital_def)

text \<open>
  Claim C8. The model mapping returns the "4.5" id exactly when the model string
  matches, up to the case of its ASCII letters, one of the prefixes
  \<^verbatim>\<open>claude-sonnet-4.5\<close> and \<^verbatim>\<open>claude-sonnet-4-5\<close>, and the base id for every
  other string. In particular \<^verbatim>\<open>claude-sonnet-4.5\<close> and \<^verbatim>\<open>claude-sonnet-4-5\<close> map
  to the "4.5" id and \<^verbatim>\<open>claude-sonnet-4\<close> to the base id; a model name in capitals
  or in mixed case that continues after the prefix, \<^verbatim>\<open>CLAUDE-SONNET-4-5-20250929\<close>
  and \<^verbatim>\<open>Claude-Sonnet-4.5\<close>, maps to the "4.5" id as well; and a name in capitals
  that matches neither prefix, \<^verbatim>\<open>CLAUDE-SONNET-4\<close> and \<^verbatim>\<open>Claude-Opus-4.5\<close>, maps
  to the base id.
\<close>

theorem map_model_name_prefix_match:
  "map_model_name m =
     (if matches_ci ''claude-sonnet-4.5'' m \<or> matches_ci ''claude-sonnet-4-5'' m
      then ''claude-sonnet-4.5'' else ''claude-sonnet-4'')
   \<and> map_model_name ''claude-sonnet-4.5'' = ''claude-sonnet-4.5''
   \<and> map_model_name ''claude-sonnet-4-5'' = ''claude-sonnet-4.5''
   \<and> map_model_name ''claude-sonnet-4'' = ''claude-sonnet-4''
   \<and> map_model_name ''CLAUDE-SONNET-4-5-20250929'' = ''claude-sonnet-4.5''
   \<and> map_model_name ''Claude-Sonnet-4.5'' = ''claude-sonnet-4.5''
   \<and> map_model_name ''CLAUDE-SONNET-4'' = ''claude-sonnet-4''
   \<and> map_model_name ''Claude-Opus-4.5'' = ''claude-sonnet-4''"
proof -
  have 1: "map_model_name m =
     (if matches_ci ''claude-sonnet-4.5'' m \<or> matches_ci ''claude-sonnet-4-5'' m
      then ''claude-sonnet-4.5'' else ''claude-sonnet-4'')"
    unfolding map_model_name_def Let_def
    by (simp only: prefix_lower_iff[OF lower_prefix_dot] prefix_lower_iff[OF lower_prefix_dash])
  have 2: "map_model_name ''claude-sonnet-4.5'' = ''claude-sonnet-4.5''"
    by code_simp
  have 3: "map_model_name ''claude-sonnet-4-5'' = ''claude-sonnet-4.5''"
    by code_simp
  have 4: "map_model_name ''claude-sonnet-4'' = ''claude-sonnet-4''"
    by code_simp
  have 5: "map_model_name ''CLAUDE-SONNET-4-5-20250929'' = ''claude-sonnet-4.5''"
    by code_simp
  have 6: "map_model_name ''Claude-Sonnet-4.5'' = ''claude-sonnet-4.5''"
    by code_simp
  have 7: "map_model_name ''CLAUDE-SONNET-4'' = ''claude-sonnet-4''"
    by code_simp
  have 8: "map_model_name ''Claude-Opus-4.5'' = ''claude-sonnet-4''"
    by code_simp
  from 1 2 3 4 5 6 7 8 show ?thesis
    by blast
qed

section \<open>Properties of the authentication\<close>



lemma str_split_nosep: "sep \<notin> set a \<Longrightarrow> str_split sep a = [a]"
  by (induction a) (auto split: list.splits)






lemma parse_one_field:
  assumes "CHR '':'' \<notin> set a"
  shows "parse_bearer_token a = (a, [], [])"
  using assms by (simp add: parse_bearer_token_def Let_def str_split_nosep)



text \<open>
  Claim C9. When the hash of the secret is in the token map, \<^verbatim>\<open>auth_middleware\<close>
  returns the access token of the cached entry, leaves the map as it is and makes no
  network call; a second resolution on the map it left returns the same, whatever
  the token endpoint and the clock would answer.
\<close>

theorem cached_secret_resolved_without_refresh:
  assumes "request_token authorization x_api_key = Some secret" and "secret \<noteq> []"
    and "TOKEN_MAP (sha256_hex secret) = Some entry"
  shows "auth_middleware sha256_hex handle_token_refresh now TOKEN_MAP authorization x_api_key
           = (Inr \<lparr>acc_accessToken = accessToken entry, acc_clientId = clientId entry,
                   acc_clientSecret = clientSecret entry,
                   acc_refreshToken = refreshToken entry\<rparr>, TOKEN_MAP, [])
       \<and> auth_middleware sha256_hex handle_token_refresh' now'
           (fst (snd (auth_middleware sha256_hex handle_token_refresh now TOKEN_MAP
                        authorization x_api_key)))
           authorization x_api_key
           = (Inr \<lparr>acc_accessToken = accessToken entry, acc_clientId = clientId entry,
                   acc_clientSecret = clientSecret entry,
                   acc_refreshToken = refreshToken entry\<rparr>, TOKEN_MAP, [])"
  using assms by (simp add: auth_middleware_def Let_def)

theorem cached_secret_resolved_without_refresh_witness:
  "auth_middleware (\<lambda>s. ''h'' @ s) (\<lambda>a b c. Some ''new'') (7::nat)
       [''hid:sec:tok'' \<mapsto> \<lparr>accessToken = ''old'', refreshToken = ''tok'', clientId = ''id'',
                              clientSecret = ''sec'', lastRefresh = 3\<rparr>]
       (Some ''Bearer id:sec:tok'') None
     = (Inr \<lparr>acc_accessToken = ''old'', acc_clientId = ''id'', acc_clientSecret = ''sec'',
             acc_refreshToken = ''tok''\<rparr>,
        [''hid:sec:tok'' \<mapsto> \<lparr>accessToken = ''old'', refreshToken = ''tok'', clientId = ''id'',
                              clientSecret = ''sec'', lastRefresh = 3\<rparr>], [])"
proof -
  have t: "request_token (Some ''Bearer id:sec:tok'') None = Some ''id:sec:tok''"
    by (simp add: request_token_def)
  show ?thesis
    using cached_secret_resolved_without_refresh [OF t,
        where sha256_hex = "\<lambda>s. ''h'' @ s"
          and TOKEN_MAP = "[''hid:sec:tok'' \<mapsto> \<lparr>accessToken = ''old'', refreshToken = ''tok'',
                 clientId = ''id'', clientSecret = ''sec'', lastRefresh = 3::nat\<rparr>]"
          and entry = "\<lparr>accessToken = ''old'', refreshToken = ''tok'',
                 clientId = ''id'', clientSecret = ''sec'', lastRefresh = 3::nat\<rparr>"
          and handle_token_refresh = "\<lambda>a b c. Some ''new''" and now = 7
          and handle_token_refresh' = "\<lambda>a b c. Some ''new''" and now' = 7]
    by simp
qed

section \<open>Properties of the event stream parser\<close>

lemma drain_frame:
  assumes "complete_frame f"
  shows "drain parse (f @ rest) =
           Option.bind (drain parse rest)
             (\<lambda>(ms, b). Some ((case parse f of Some m \<Rightarrow> [m] | None \<Rightarrow> []) @ ms, b))"
proof -
  from assms have len: "16 \<le> length f" and tl: "be_uint (take 4 f) = length f"
    by (simp_all add: complete_frame_def)
  have t4: "take 4 (f @ rest) = take 4 f" using len by simp
  show ?thesis
    by (subst drain.simps) (use len in \<open>simp add: t4 tl Let_def\<close>)
qed

lemma drain_empty: "drain parse [] = Some ([], [])"
  by (subst drain.simps) simp

lemma drain_partial:
  assumes "complete_frame f" and "strict_prefix t f"
  shows "drain parse t = Some ([], t)"
proof -
  from assms(1) have len: "16 \<le> length f" and tl: "be_uint (take 4 f) = length f"
    by (simp_all add: complete_frame_def)
  from assms(2) obtain r where f: "f = t @ r" and r: "r \<noteq> []"
    by (auto simp: strict_prefix_def prefix_def)
  have lt: "length t < length f" using f r by simp
  show ?thesis
  proof (cases "12 \<le> length t")
    case True
    then have "take 4 t = take 4 f" using f by simp
    then show ?thesis
      by (subst drain.simps) (use True lt tl in \<open>simp add: Let_def\<close>)
  next
    case False
    then show ?thesis by (subst drain.simps) simp
  qed
qed

lemma drain_pending:
  assumes "\<forall>f\<in>set fs. complete_frame f" and "pending t fs"
  shows "drain parse t = Some ([], t)"
  using assms by (cases fs) (auto simp: pending_def drain_empty intro: drain_partial)

lemma drain_frames:
  assumes "\<forall>f\<in>set fs1. complete_frame f" and "\<forall>f\<in>set fs2. complete_frame f"
    and "pending t fs2"
  shows "drain parse (concat fs1 @ t) = Some (decoded parse fs1, t)"
  using assms(1)
proof (induction fs1)
  case Nil
  then show ?case using drain_pending[OF assms(2,3)] by (simp add: decoded_def)
next
  case (Cons f fs1)
  then show ?case by (simp add: drain_frame decoded_def)
qed

lemma split_prefix:
  assumes "\<forall>f\<in>set fs. complete_frame f" and "prefix p (concat fs)"
  shows "\<exists>fs1 fs2 t. fs = fs1 @ fs2 \<and> p = concat fs1 @ t \<and> pending t fs2"
  using assms
proof (induction fs arbitrary: p)
  case Nil
  then show ?case by (simp add: pending_def)
next
  case (Cons f fs)
  show ?case
  proof (cases "strict_prefix p f")
    case True
    then have "f # fs = [] @ (f # fs) \<and> p = concat [] @ p \<and> pending p (f # fs)"
      by (simp add: pending_def)
    then show ?thesis by blast
  next
    case False
    from Cons.prems(2) have "prefix p (f @ concat fs)" by simp
    then have "prefix p f \<or> (\<exists>us. p = f @ us \<and> prefix us (concat fs))"
      by (simp add: prefix_append)
    with False obtain us where us: "p = f @ us" "prefix us (concat fs)"
      by (auto simp: strict_prefix_def)
    from Cons.IH[OF _ us(2)] Cons.prems(1)
    obtain fs1 fs2 t where "fs = fs1 @ fs2" "us = concat fs1 @ t" "pending t fs2"
      by auto
    then have "f # fs = (f # fs1) @ fs2 \<and> p = concat (f # fs1) @ t \<and> pending t fs2"
      using us(1) by simp
    then show ?thesis by blast
  qed
qed

lemma decoded_append: "decoded parse (fs1 @ fs2) = decoded parse fs1 @ decoded parse fs2"
  by (simp add: decoded_def)

lemma parse_stream_from_frames:
  assumes "\<forall>f\<in>set fs. complete_frame f" and "pending t fs" and "t @ concat cs = concat fs"
  shows "parse_stream_from parse t cs = Some (decoded parse fs)"
  using assms
proof (induction cs arbitrary: t fs)
  case Nil
  show ?case
  proof (cases fs)
    case Nil
    then show ?thesis by (simp add: decoded_def)
  next
    case (Cons f fs')
    with Nil.prems have "strict_prefix t f" "t = f @ concat fs'"
      by (simp_all add: pending_def)
    then have False by (auto simp: strict_prefix_def prefix_def)
    then show ?thesis ..
  qed
next
  case (Cons c cs)
  have "prefix (t @ c) (concat fs)"
    using Cons.prems(3) by (metis append.assoc concat.simps(2) prefixI)
  from split_prefix[OF Cons.prems(1) this]
  obtain fs1 fs2 t' where sp: "fs = fs1 @ fs2" "t @ c = concat fs1 @ t'" "pending t' fs2"
    by blast
  have cf1: "\<forall>f\<in>set fs1. complete_frame f" and cf2: "\<forall>f\<in>set fs2. complete_frame f"
    using Cons.prems(1) sp(1) by auto
  have d: "drain parse (t @ c) = Some (decoded parse fs1, t')"
    using drain_frames[OF cf1 cf2 sp(3)] sp(2) by simp
  have "concat fs1 @ t' @ concat cs = concat fs1 @ concat fs2"
    using Cons.prems(3) sp(1,2) by (metis append.assoc concat.simps(2) concat_append)
  then have r: "t' @ concat cs = concat fs2" by simp
  have "parse_stream_from parse t' cs = Some (decoded parse fs2)"
    by (rule Cons.IH[OF cf2 sp(3) r])
  then show ?case using d sp(1) by (simp add: decoded_append)
qed

lemma pending_Nil: "\<forall>f\<in>set fs. complete_frame f \<Longrightarrow> pending [] fs"
  by (cases fs) (auto simp: pending_def complete_frame_def strict_prefix_def)

text \<open>
  Claim C2. For every list of complete frames and every list of chunks with the same
  bytes, \<^verbatim>\<open>parse_stream\<close> returns, and yields what it yields when the whole buffer
  comes in one chunk: the messages of the frames, in order, each once. The same holds
  for one byte per chunk.
\<close>

theorem parse_stream_chunking:
  assumes "\<forall>f\<in>set frames. complete_frame f" and "concat chunks = concat frames"
  shows "parse_stream decode loads chunks = parse_stream decode loads [concat frames]
       \<and> parse_stream decode loads chunks = Some (decoded (parse_message decode loads) frames)
       \<and> parse_stream decode loads (map (\<lambda>b. [b]) (concat frames))
           = Some (decoded (parse_message decode loads) frames)"
proof -
  have a: "parse_stream decode loads cs = Some (decoded (parse_message decode loads) frames)"
    if "concat cs = concat frames" for cs
    unfolding parse_stream_def
    using parse_stream_from_frames[OF assms(1) pending_Nil[OF assms(1)], of cs] that by simp
  have b: "concat (map (\<lambda>b. [b]) xs) = xs" for xs :: "byte list"
    by (induction xs) auto
  show ?thesis using a[OF assms(2)] a[of "[concat frames]"] a[of "map (\<lambda>b. [b]) (concat frames)"] b
    by simp
qed


lemma unit_chunks: "concat (map (\<lambda>b. [b]) xs) = xs"
  by (induction xs) auto

theorem parse_stream_chunking_witness:
  "parse_stream (\<lambda>bs. Some (map (\<lambda>b. char_of (unat b)) bs))
       (\<lambda>s. if s = ''{}'' then Inr (JObj []) else Inl JSONDecodeError)
       [[0,0,0,16, 0], [0,0,0, 0,0,0,0, 0,0,0,0, 0,0,0,18, 0,0], [0,0, 0,0,0,0, 123,125, 0,0,0,0]]
   = Some [\<lparr>msg_headers = [], msg_payload = PJson JNull, msg_total_length = 16\<rparr>,
           \<lparr>msg_headers = [], msg_payload = PJson (JObj []), msg_total_length = 18\<rparr>]
   \<and> parse_stream (\<lambda>bs. Some (map (\<lambda>b. char_of (unat b)) bs))
       (\<lambda>s. if s = ''{}'' then Inr (JObj []) else Inl JSONDecodeError)
       (map (\<lambda>b. [b]) (concat [[0,0,0,16, 0,0,0,0, 0,0,0,0, 0,0,0,0],
                                [0,0,0,18, 0,0,0,0, 0,0,0,0, 123,125, 0,0,0,0]]))
   = Some [\<lparr>msg_headers = [], msg_payload = PJson JNull, msg_total_length = 16\<rparr>,
           \<lparr>msg_headers = [], msg_payload = PJson (JObj []), msg_total_length = 18\<rparr>]"
proof -
  let ?f1 = "[0,0,0,16, 0,0,0,0, 0,0,0,0, 0,0,0,0] :: byte list"
  let ?f2 = "[0,0,0,18, 0,0,0,0, 0,0,0,0, 123,125, 0,0,0,0] :: byte list"
  let ?dec = "\<lambda>bs :: byte list. Some (map (\<lambda>b. char_of (unat b)) bs)"
  let ?lds = "\<lambda>s. if s = ''{}'' then Inr (JObj []) else Inl JSONDecodeError"
  have c: "\<forall>f\<in>set [?f1, ?f2]. complete_frame f"
    by (simp add: complete_frame_def be_uint_def)
  have e: "concat [[0,0,0,16, 0], [0,0,0, 0,0,0,0, 0,0,0,0, 0,0,0,18, 0,0],
                   [0,0, 0,0,0,0, 123,125, 0,0,0,0]] = concat [?f1, ?f2]"
    by simp
  have d: "decoded (parse_message ?dec ?lds) [?f1, ?f2]
    = [\<lparr>msg_headers = [], msg_payload = PJson JNull, msg_total_length = 16\<rparr>,
       \<lparr>msg_headers = [], msg_payload = PJson (JObj []), msg_total_length = 18\<rparr>]"
  proof -
    have ch: "char_of (123::nat) = CHR ''{''" "char_of (125::nat) = CHR ''}''"
      by code_simp+
    show ?thesis
      by (simp add: decoded_def parse_message_def parse_headers_def be_uint_def py_slice_def
          Let_def ch)
  qed
  show ?thesis
    using parse_stream_chunking [OF c e, of ?dec ?lds, unfolded d] by blast
qed
section \<open>Properties of the request converter\<close>

lemmas converter_defs =
  convert_claude_to_amazonq_request_def long_desc_tools_of_def current_turn_def user_turn_def
  ebind_def extract_images_from_content_def extract_text_from_content_def get_def
  get_default_def process_tool_result_block_def strip_nonempty_def is_space_def join_json_def
  text_parts_def system_text_def process_history_def truthy_results_def Let_def



lemma system_prompt_block_ne: "system_prompt_block sys_text \<noteq> []"
  by (simp add: system_prompt_block_def)





section \<open>Properties of the history\<close>

lemma merge_pass_users:
  "merge_pass ps (map RawUser run @ rest) = merge_pass (ps @ run) rest"
  by (induction run arbitrary: ps) auto

lemma merge_pass_split:
  "merge_pass ps (pre @ RawAssistant a # xs)
     = merge_pass ps (pre @ [RawAssistant a]) @ merge_pass [] xs"
proof (induction pre arbitrary: ps)
  case Nil
  then show ?case by simp
next
  case (Cons e pre)
  then show ?case by (cases e) auto
qed

lemma all_images_filter:
  "concat (map (\<lambda>msg. case uim_images msg of
                          Some imgs \<Rightarrow> (if imgs \<noteq> [] then [imgs] else [])
                        | None \<Rightarrow> []) run)
     = filter (\<lambda>i. i \<noteq> []) (map images_of run)"
  by (induction run) (auto simp: images_of_def split: option.splits)

lemma concat_filter_ne: "concat (filter (\<lambda>i. i \<noteq> []) xs) = concat xs"
  by (induction xs) auto

lemma kept_images_cond:
  "(if A \<noteq> [] \<and> concat (last_two A) \<noteq> [] then Some (concat (last_two A)) else None)
     = (if concat (last_two A) \<noteq> [] then Some (concat (last_two A)) else None)"
  by (cases A) (simp_all add: last_two_def)

lemma merge_user_messages_Cons:
  "merge_user_messages (u # us) =
     Some \<lparr>uim_content = str_join (newline @ newline)
                            (filter (\<lambda>c. c \<noteq> []) (map uim_content (u # us))),
           uim_context = uim_context u,
           uim_origin = (if uim_origin u \<noteq> [] then uim_origin u else ''CLI''),
           uim_modelId = first_some (map uim_modelId (u # us)),
           uim_images =
             (if concat (last_two (filter (\<lambda>i. i \<noteq> []) (map images_of (u # us)))) \<noteq> []
              then Some (concat (last_two (filter (\<lambda>i. i \<noteq> []) (map images_of (u # us)))))
              else None)\<rparr>"
  unfolding merge_user_messages_def Let_def all_images_filter kept_images_cond
  by (simp only: list.case)

lemma merged_text:
  assumes "run \<noteq> []"
  shows "\<exists>m. merge_user_messages run = Some m
     \<and> uim_content m = str_join (newline @ newline) (filter (\<lambda>c. c \<noteq> []) (map uim_content run))
     \<and> images_of m = concat (last_two (filter (\<lambda>i. i \<noteq> []) (map images_of run)))"
proof -
  from assms obtain u us where run: "run = u # us" by (cases run) auto
  show ?thesis
    unfolding run merge_user_messages_Cons
    by (simp add: images_of_def del: filter.simps list.map concat_eq_Nil_conv)
qed

lemma suffix_last_two:
  assumes "suffix xs ys" and "length xs \<le> 2"
  shows "suffix xs (last_two ys)"
proof -
  from assms(1) obtain zs where ys: "ys = zs @ xs" by (auto simp: suffix_def)
  have "last_two ys = drop (length zs + length xs - 2) zs @ drop (length zs + length xs - 2 - length zs) xs"
    by (simp add: last_two_def ys)
  moreover have "length zs + length xs - 2 - length zs = 0" using assms(2) by simp
  ultimately show ?thesis by (simp add: suffix_def)
qed

lemma suffix_concat: "suffix xs ys \<Longrightarrow> suffix (concat xs) (concat ys)"
  by (auto simp: suffix_def)

lemma suffix_filter': "suffix xs ys \<Longrightarrow> suffix (filter P xs) (filter P ys)"
  by (auto simp: suffix_def)

lemma last_two_suffix: "suffix (last_two xs) xs"
  by (simp add: last_two_def suffix_drop)

lemma length_last_two: "length (last_two xs) \<le> 2"
  by (simp add: last_two_def)

lemma kept_last_two:
  "suffix (concat (map images_of (last_two run)))
          (concat (last_two (filter (\<lambda>i. i \<noteq> []) (map images_of run))))"
proof -
  let ?L = "map images_of run"
  let ?ne = "\<lambda>i::image list. i \<noteq> []"
  have m: "map images_of (last_two run) = last_two ?L"
    by (simp add: last_two_def drop_map)
  have s: "suffix (filter ?ne (last_two ?L)) (filter ?ne ?L)"
    by (rule suffix_filter'[OF last_two_suffix])
  have l: "length (filter ?ne (last_two ?L)) \<le> 2"
    using length_last_two[of ?L] length_filter_le[of ?ne "last_two ?L"] by linarith
  have "suffix (concat (filter ?ne (last_two ?L))) (concat (last_two (filter ?ne ?L)))"
    by (rule suffix_concat[OF suffix_last_two[OF s l]])
  then show ?thesis by (simp add: m concat_filter_ne)
qed

lemma kept_two_turns:
  "\<exists>sel. subseq sel run \<and> length sel \<le> 2
     \<and> concat (last_two (filter (\<lambda>i. i \<noteq> []) (map images_of run))) = concat (map images_of sel)"
proof -
  let ?sel = "last_two (filter (\<lambda>u. images_of u \<noteq> []) run)"
  have 1: "subseq ?sel run"
  proof -
    have "suffix ?sel (filter (\<lambda>u. images_of u \<noteq> []) run)" by (rule last_two_suffix)
    then have "subseq ?sel (filter (\<lambda>u. images_of u \<noteq> []) run)" by (rule suffix_imp_subseq)
    moreover have "subseq (filter (\<lambda>u. images_of u \<noteq> []) run) run" by simp
    ultimately show ?thesis by (rule subseq_order.trans)
  qed
  have 2: "length ?sel \<le> 2" by (rule length_last_two)
  have 3: "filter (\<lambda>i. i \<noteq> []) (map images_of run) = map images_of (filter (\<lambda>u. images_of u \<noteq> []) run)"
    by (simp add: filter_map comp_def)
  have "last_two (filter (\<lambda>i. i \<noteq> []) (map images_of run)) = map images_of ?sel"
    by (simp add: 3 last_two_def drop_map)
  with 1 2 show ?thesis by metis
qed

text \<open>
  Claim C7 fails on the code as it is stated, on the text and on the images. The text of
  a turn that has none (a turn with only a tool result) is left out of the merged text:
  the merged text of the turns \<^verbatim>\<open>a\<close> and the empty text is \<^verbatim>\<open>a\<close>, not the two
  texts joined with a blank line. And the images kept are those of the last two turns
  that have images, not those of the last two turns: of three turns with an image in the
  first and in the third, both images are kept, the one of the first turn too.
\<close>

theorem merge_of_user_run_differs:
  "process_history (\<lambda>n. ''id'')
     [\<lparr>cm_role = ''user'', cm_content = Text ''a''\<rparr>,
      \<lparr>cm_role = ''user'',
       cm_content = Blocks [[(''type'', JStr ''tool_result''), (''tool_use_id'', JStr ''t1''),
                             (''content'', JStr ''ok'')]]\<rparr>]
   = Inr [UserInputMessage
            \<lparr>uim_content = ''a'',
             uim_context = \<lparr>operatingSystem = ''macos'', currentWorkingDirectory = ''/'',
                            ctx_tools = None, ctx_toolResults = None\<rparr>,
             uim_origin = ''CLI'', uim_modelId = None, uim_images = None\<rparr>]
   \<and> str_join (newline @ newline) [''a'', []] \<noteq> ''a''
   \<and> process_history (\<lambda>n. ''id'')
     [\<lparr>cm_role = ''user'',
       cm_content = Blocks [[(''type'', JStr ''text''), (''text'', JStr ''a'')],
                            [(''type'', JStr ''image''),
                             (''source'', JObj [(''type'', JStr ''base64''),
                                               (''media_type'', JStr ''image/png''),
                                               (''data'', JStr ''AAAA'')])]]\<rparr>,
      \<lparr>cm_role = ''user'', cm_content = Text ''b''\<rparr>,
      \<lparr>cm_role = ''user'',
       cm_content = Blocks [[(''type'', JStr ''text''), (''text'', JStr ''c'')],
                            [(''type'', JStr ''image''),
                             (''source'', JObj [(''type'', JStr ''base64''),
                                               (''media_type'', JStr ''image/png''),
                                               (''data'', JStr ''CCCC'')])]]\<rparr>]
   = Inr [UserInputMessage
            \<lparr>uim_content = ''a'' @ newline @ newline @ ''b'' @ newline @ newline @ ''c'',
             uim_context = \<lparr>operatingSystem = ''macos'', currentWorkingDirectory = ''/'',
                            ctx_tools = None, ctx_toolResults = None\<rparr>,
             uim_origin = ''CLI'', uim_modelId = None,
             uim_images = Some [\<lparr>img_format = ''png'', img_bytes = JStr ''AAAA''\<rparr>,
                                \<lparr>img_format = ''png'', img_bytes = JStr ''CCCC''\<rparr>]\<rparr>]"
  by (simp add: converter_defs merged_entry_def merge_user_messages_def first_some_def
      last_two_def newline_def image_format_def)

text \<open>
  Claim C7, amended. Every run of consecutive user turns of the first pass, between the
  start of the history or an assistant turn and the end of the history or an assistant
  turn, becomes one history entry; its text is the texts of the turns that are not
  empty, joined with a blank line; its images are the images of at most two turns of
  the run, in order, and end with the images of the last two turns of the run.
\<close>

theorem user_run_collapsed:
  assumes "run \<noteq> []"
    and "pre = [] \<or> (\<exists>pre' a. pre = pre' @ [RawAssistant a])"
    and "post = [] \<or> (\<exists>a post'. post = RawAssistant a # post')"
  shows "\<exists>m sel.
           merge_pass [] (pre @ map RawUser run @ post)
             = merge_pass [] pre @ [UserInputMessage m] @ merge_pass [] post
         \<and> uim_content m
             = str_join (newline @ newline) (filter (\<lambda>c. c \<noteq> []) (map uim_content run))
         \<and> subseq sel run \<and> length sel \<le> 2 \<and> images_of m = concat (map images_of sel)
         \<and> suffix (concat (map images_of (last_two run))) (images_of m)"
proof -
  from merged_text[OF assms(1)] obtain m where m: "merge_user_messages run = Some m"
    and mtext: "uim_content m
                = str_join (newline @ newline) (filter (\<lambda>c. c \<noteq> []) (map uim_content run))"
    and img: "images_of m = concat (last_two (filter (\<lambda>i. i \<noteq> []) (map images_of run)))"
    by blast
  from kept_two_turns[of run] img obtain sel where sel: "subseq sel run" "length sel \<le> 2"
    "images_of m = concat (map images_of sel)"
    by auto
  have suf: "suffix (concat (map images_of (last_two run))) (images_of m)"
    using kept_last_two[of run] img by simp
  have me: "merged_entry run = UserInputMessage m"
    by (simp add: merged_entry_def m)
  have tail: "merge_pass [] (map RawUser run @ post) = [UserInputMessage m] @ merge_pass [] post"
  proof -
    have "merge_pass [] (map RawUser run @ post) = merge_pass run post"
      using merge_pass_users[of "[]" run post] by simp
    also have "\<dots> = [UserInputMessage m] @ merge_pass [] post"
      using assms(1,3) me by auto
    finally show ?thesis .
  qed
  have "merge_pass [] (pre @ map RawUser run @ post)
          = merge_pass [] pre @ [UserInputMessage m] @ merge_pass [] post"
  proof (cases "pre = []")
    case True
    then show ?thesis using tail by simp
  next
    case False
    with assms(2) obtain pre' a where pre: "pre = pre' @ [RawAssistant a]" by blast
    have "merge_pass [] (pre @ map RawUser run @ post)
            = merge_pass [] (pre' @ RawAssistant a # (map RawUser run @ post))"
      by (simp add: pre)
    also have "\<dots> = merge_pass [] (pre' @ [RawAssistant a]) @ merge_pass [] (map RawUser run @ post)"
      by (rule merge_pass_split)
    finally show ?thesis using tail pre by simp
  qed
  with mtext sel suf show ?thesis by blast
qed

theorem user_run_collapsed_witness:
  "\<exists>m sel.
     merge_pass []
       ([] @ map RawUser
       [\<lparr>uim_content = ''a'',
         uim_context = \<lparr>operatingSystem = ''macos'', currentWorkingDirectory = ''/'',
                        ctx_tools = None, ctx_toolResults = None\<rparr>,
         uim_origin = ''CLI'', uim_modelId = None,
         uim_images = Some [\<lparr>img_format = ''png'', img_bytes = JStr ''AAAA''\<rparr>]\<rparr>,
        \<lparr>uim_content = [],
         uim_context = \<lparr>operatingSystem = ''macos'', currentWorkingDirectory = ''/'',
                        ctx_tools = None, ctx_toolResults = None\<rparr>,
         uim_origin = ''CLI'', uim_modelId = None, uim_images = None\<rparr>] @ [])
       = merge_pass [] [] @ [UserInputMessage m] @ merge_pass [] []
     \<and> uim_content m
         = str_join (newline @ newline) (filter (\<lambda>c. c \<noteq> []) (map uim_content
       [\<lparr>uim_content = ''a'',
         uim_context = \<lparr>operatingSystem = ''macos'', currentWorkingDirectory = ''/'',
                        ctx_tools = None, ctx_toolResults = None\<rparr>,
         uim_origin = ''CLI'', uim_modelId = None,
         uim_images = Some [\<lparr>img_format = ''png'', img_bytes = JStr ''AAAA''\<rparr>]\<rparr>,
        \<lparr>uim_content = [],
         uim_context = \<lparr>operatingSystem = ''macos'', currentWorkingDirectory = ''/'',
                        ctx_tools = None, ctx_toolResults = None\<rparr>,
         uim_origin = ''CLI'', uim_modelId = None, uim_images = None\<rparr>]))
     \<and> subseq sel
       [\<lparr>uim_content = ''a'',
         uim_context = \<lparr>operatingSystem = ''macos'', currentWorkingDirectory = ''/'',
                        ctx_tools = None, ctx_toolResults = None\<rparr>,
         uim_origin = ''CLI'', uim_modelId = None,
         uim_images = Some [\<lparr>img_format = ''png'', img_bytes = JStr ''AAAA''\<rparr>]\<rparr>,
        \<lparr>uim_content = [],
         uim_context = \<lparr>operatingSystem = ''macos'', currentWorkingDirectory = ''/'',
                        ctx_tools = None, ctx_toolResults = None\<rparr>,
         uim_origin = ''CLI'', uim_modelId = None, uim_images = None\<rparr>]
     \<and> length sel \<le> 2 \<and> images_of m = concat (map images_of sel)
     \<and> suffix (concat (map images_of (last_two
       [\<lparr>uim_content = ''a'',
         uim_context = \<lparr>operatingSystem = ''macos'', currentWorkingDirectory = ''/'',
                        ctx_tools = None, ctx_toolResults = None\<rparr>,
         uim_origin = ''CLI'', uim_modelId = None,
         uim_images = Some [\<lparr>img_format = ''png'', img_bytes = JStr ''AAAA''\<rparr>]\<rparr>,
        \<lparr>uim_content = [],
         uim_context = \<lparr>operatingSystem = ''macos'', currentWorkingDirectory = ''/'',
                        ctx_tools = None, ctx_toolResults = None\<rparr>,
         uim_origin = ''CLI'', uim_modelId = None, uim_images = None\<rparr>])))
         (images_of m)"
  by (rule user_run_collapsed) simp_all

section \<open>Properties of the aggregated response\<close>

lemma sse_text_not_data: "\<not> prefix ''data: '' (sse_text dumps chunk)"
  by (cases chunk) (simp_all add: sse_text_def sse_format_def)

lemma aggregate_line_sse_text: "aggregate_line loads st (sse_text dumps chunk) = st"
  by (simp add: aggregate_line_def sse_text_not_data)

lemma aggregate_lines_sse_text:
  "foldl (aggregate_line loads) st (map (sse_text dumps) out) = st"
  by (induction out arbitrary: st) (simp_all add: aggregate_line_sse_text)

text \<open>
  Every string of the stream handler starts with \<^verbatim>\<open>event: \<close>, and the aggregation
  reads only the strings that start with \<^verbatim>\<open>data: \<close>: whatever the upstream events,
  the non-streaming answer has no content block, no stop reason and the initial usage.
\<close>

lemma claude_messages_response_empty:
  assumes "claude_messages_response dumps loads req_model events = Inr (content, stop, use)"
  shows "content = [] \<and> stop = JNull \<and> use = usage init_aggregate"
  using assms
  by (auto simp: claude_messages_response_def aggregate_lines_sse_text init_aggregate_def
      split: prod.splits sum.splits)

text \<open>
  The step for the \<^verbatim>\<open>content_block_stop\<close> of a tool_use block, which the loop
  reaches only for a string that starts with \<^verbatim>\<open>data: \<close>: when \<^verbatim>\<open>json.loads\<close>
  raises on the accumulated text, the input of the block stays as it was and the
  \<^verbatim>\<open>partial_json\<close> text is deleted.
\<close>

lemma aggregate_block_stop_unparsable:
  assumes dtype: "get data ''type'' = JStr ''content_block_stop''"
    and idx: "py_index (length (final_content st)) (get_default data ''index'' (JInt 0)) = Inr k"
    and block: "final_content st ! k = JObj block"
    and tool: "map_of block ''type'' = Some (JStr ''tool_use'')"
    and raw: "map_of block ''partial_json'' = Some (JStr raw)"
    and invalid: "loads raw = Inl e"
  shows "aggregate_data loads (JObj data) st
           = st\<lparr>final_content :=
                  (final_content st)[k := JObj (AList.delete ''partial_json'' block)]\<rparr>"
proof -
  have ne: "block \<noteq> []"
    using tool by auto
  show ?thesis
    using dtype idx block tool raw invalid ne
    by (simp add: aggregate_data_def aggregate_block_stop_def Let_def)
qed

text \<open>
  Claim C3 is not met by the code. The upstream events open the tool use \<^verbatim>\<open>t1\<close>,
  give it the input fragment \<^verbatim>\<open>{\<close>, which is not valid JSON, and stop it. The
  stream handler keeps the fragment verbatim in its list of tool inputs and emits it in
  an \<^verbatim>\<open>input_json_delta\<close>, but none of the strings it yields starts with
  \<^verbatim>\<open>data: \<close>, the only strings the aggregation loop reads: whatever
  \<^verbatim>\<open>json.dumps\<close> and \<^verbatim>\<open>json.loads\<close> do, the non-streaming answer has no content
  block at all, so no block that holds the raw text, no stop reason and the initial
  usage.
\<close>

theorem unparsable_tool_input_lost:
  "(\<exists>h. event_generator dumps (init_handler m 0)
        [(''toolUseEvent'', [(''toolUseId'', JStr ''t1''), (''name'', JStr ''bash'')]),
         (''toolUseEvent'', [(''input'', JStr ''{'')]),
         (''toolUseEvent'', [(''stop'', JBool True)])]
      = ([build_tool_use_start 0 (JStr ''t1'') (JStr ''bash''),
          build_tool_use_input_delta 0 ''{'',
          build_content_block_stop 0,
          build_message_stop 0 1 ''end_turn''], Inr h)
      \<and> all_tool_inputs h = [''{''])
   \<and> filter (prefix ''data: '')
        (map (sse_text dumps)
           [build_tool_use_start 0 (JStr ''t1'') (JStr ''bash''),
            build_tool_use_input_delta 0 ''{'',
            build_content_block_stop 0,
            build_message_stop 0 1 ''end_turn'']) = []
   \<and> claude_messages_response dumps loads m
         [(''toolUseEvent'', [(''toolUseId'', JStr ''t1''), (''name'', JStr ''bash'')]),
          (''toolUseEvent'', [(''input'', JStr ''{'')]),
          (''toolUseEvent'', [(''stop'', JBool True)])]
       = Inr ([], JNull, JObj [(''input_tokens'', JInt 0), (''output_tokens'', JInt 0)])"
proof -
  let ?evs = "[(''toolUseEvent'', [(''toolUseId'', JStr ''t1''), (''name'', JStr ''bash'')]),
            (''toolUseEvent'', [(''input'', JStr ''{'')]),
            (''toolUseEvent'', [(''stop'', JBool True)])]"
  let ?out = "[build_tool_use_start 0 (JStr ''t1'') (JStr ''bash''),
          build_tool_use_input_delta 0 ''{'',
          build_content_block_stop 0,
          build_message_stop 0 1 ''end_turn'']"
  have 1: "\<exists>h. event_generator dumps (init_handler m 0) ?evs = (?out, Inr h)
      \<and> all_tool_inputs h = [''{'']"
    by (simp add: handler_defs)
  then obtain h where eg: "event_generator dumps (init_handler m 0) ?evs = (?out, Inr h)"
    by blast
  have 2: "filter (prefix ''data: '') (map (sse_text dumps) ?out) = []"
    by (simp only: filter_empty_conv) (auto simp: sse_text_not_data)
  have 3: "claude_messages_response dumps loads m ?evs
       = Inr ([], JNull, JObj [(''input_tokens'', JInt 0), (''output_tokens'', JInt 0)])"
    unfolding claude_messages_response_def eg
    by (simp add: aggregate_lines_sse_text init_aggregate_def)
  from 1 2 3 show ?thesis
    by blast
qed

end
